theory Spec2Isabelle
  imports Main "HOL-Library.Word"
begin

section \<open>Bounds-checked memory helpers (board/e710\_ref\_design/ex10\_osal\_posix.c)\<close>







section \<open>Regulatory channel timers of the ETSI lower region
  (src/ex10\_regulatory/ex10\_regulatory\_regions/ex10\_regulatory\_etsi\_lower.c)\<close>

text \<open>
  The structures are those of include/ex10\_api/ex10\_regulatory.h. A channel index
  (\<open>channel_index_t\<close>) is an array index, modelled as a natural number; the three
  file-scope arrays have \<open>ETSI_UPPER_CHANNELS\<close> entries, and an access beyond them
  (undefined behaviour in C) yields \<open>None\<close>. The pointer \<open>region_ptr\<close> is modelled
  by the region it points to.
\<close>

datatype RfFilter = UNDEFINED_BAND | LOWER_BAND | UPPER_BAND

record Ex10RegulatoryTimers =
  nominal_ms :: "16 word"
  extended_ms :: "16 word"
  regulatory_ms :: "16 word"
  off_same_channel_ms :: "16 word"

record Ex10RegulatoryChannels =
  start_freq_khz :: "32 word"
  spacing_khz :: "32 word"
  count :: nat
  usable :: "nat list"
  usable_count :: nat
  random_hop :: bool

datatype Ex10RegionId =
    REGION_NOT_DEFINED | REGION_FCC | REGION_HK | REGION_TAIWAN | REGION_ETSI_LOWER
  | REGION_ETSI_UPPER | REGION_KOREA | REGION_MALAYSIA | REGION_CHINA | REGION_SOUTH_AFRICA
  | REGION_BRAZIL | REGION_THAILAND | REGION_SINGAPORE | REGION_AUSTRALIA | REGION_INDIA
  | REGION_URUGUAY | REGION_VIETNAM | REGION_ISRAEL | REGION_PHILIPPINES | REGION_INDONESIA
  | REGION_NEW_ZEALAND | REGION_JAPAN2 | REGION_PERU | REGION_RUSSIA | REGION_CUSTOM

record Ex10Region =
  region_id :: Ex10RegionId
  regulatory_timers :: Ex10RegulatoryTimers
  regulatory_channels :: Ex10RegulatoryChannels
  pll_divider :: "32 word"
  rf_filter :: RfFilter
  max_power_cdbm :: int

definition ETSI_UPPER_CHANNELS :: nat where
  "ETSI_UPPER_CHANNELS = 4"

definition etsi_lower_usable_channels :: "nat list" where
  "etsi_lower_usable_channels = [4, 7, 10, 13]"

definition region :: Ex10Region where
  "region =
     \<lparr> region_id = REGION_ETSI_LOWER,
       regulatory_timers =
         \<lparr> nominal_ms = 3800, extended_ms = 3980, regulatory_ms = 4000,
           off_same_channel_ms = 100 \<rparr>,
       regulatory_channels =
         \<lparr> start_freq_khz = 865100, spacing_khz = 200, count = 4,
           usable = etsi_lower_usable_channels,
           usable_count = length etsi_lower_usable_channels,
           random_hop = False \<rparr>,
       pll_divider = 60,
       rf_filter = LOWER_BAND,
       max_power_cdbm = 3000 \<rparr>"

record EtsiLowerState =
  channel_last_start :: "32 word list"
  channel_last_end :: "32 word list"
  channel_total_time :: "32 word list"
  region_ptr :: Ex10Region

text \<open>The state at program start: zero-initialised arrays, \<open>region_ptr = &region\<close>.\<close>

definition etsi_lower_initial :: EtsiLowerState where
  "etsi_lower_initial =
     \<lparr> channel_last_start = replicate ETSI_UPPER_CHANNELS 0,
       channel_last_end = replicate ETSI_UPPER_CHANNELS 0,
       channel_total_time = replicate ETSI_UPPER_CHANNELS 0,
       region_ptr = region \<rparr>"

text \<open>The arrays keep their declared size.\<close>

definition etsi_lower_wf :: "EtsiLowerState \<Rightarrow> bool" where
  "etsi_lower_wf st \<longleftrightarrow>
     length (channel_last_start st) = ETSI_UPPER_CHANNELS \<and>
     length (channel_last_end st) = ETSI_UPPER_CHANNELS \<and>
     length (channel_total_time st) = ETSI_UPPER_CHANNELS"

definition set_region :: "Ex10Region option \<Rightarrow> EtsiLowerState \<Rightarrow> EtsiLowerState" where
  "set_region region_to_use st =
     st\<lparr>region_ptr := (case region_to_use of None \<Rightarrow> region | Some r \<Rightarrow> r)\<rparr>"

definition get_region :: "EtsiLowerState \<Rightarrow> Ex10Region" where
  "get_region st = region_ptr st"

definition get_regulatory_timers :: "nat \<Rightarrow> 32 word \<Rightarrow> EtsiLowerState \<Rightarrow> Ex10RegulatoryTimers" where
  "get_regulatory_timers channel time_ms st = regulatory_timers (region_ptr st)"

text \<open>
  \<open>time_since_off\<close> is a \<open>uint32_t\<close> difference and wraps; the 16-bit off time is
  converted to 32 bits for the unsigned comparison.
\<close>

definition regulatory_timer_set_start :: "nat \<Rightarrow> 32 word \<Rightarrow> EtsiLowerState \<Rightarrow> EtsiLowerState option" where
  "regulatory_timer_set_start channel time_ms st =
     (if channel < ETSI_UPPER_CHANNELS then
        (let st1 = st\<lparr>channel_last_start := (channel_last_start st)[channel := time_ms]\<rparr>;
             time_since_off = time_ms - channel_last_end st1 ! channel
         in if time_since_off < ucast (off_same_channel_ms (regulatory_timers (region_ptr st1)))
            then Some (st1\<lparr>channel_total_time :=
                   (channel_total_time st1)[channel := channel_total_time st1 ! channel + time_since_off]\<rparr>)
            else Some (st1\<lparr>channel_total_time := (channel_total_time st1)[channel := 0]\<rparr>))
      else None)"

definition regulatory_timer_set_end :: "nat \<Rightarrow> 32 word \<Rightarrow> EtsiLowerState \<Rightarrow> EtsiLowerState option" where
  "regulatory_timer_set_end channel time_ms st =
     (if channel < ETSI_UPPER_CHANNELS then
        (let st1 = st\<lparr>channel_last_end := (channel_last_end st)[channel := time_ms]\<rparr>;
             time_elapsed = time_ms - channel_last_start st1 ! channel
         in Some (st1\<lparr>channel_total_time :=
                   (channel_total_time st1)[channel := channel_total_time st1 ! channel + time_elapsed]\<rparr>))
      else None)"

definition regulatory_timer_clear :: "EtsiLowerState \<Rightarrow> EtsiLowerState" where
  "regulatory_timer_clear st =
     st\<lparr>channel_last_start := replicate ETSI_UPPER_CHANNELS 0,
        channel_last_end := replicate ETSI_UPPER_CHANNELS 0,
        channel_total_time := replicate ETSI_UPPER_CHANNELS 0\<rparr>"

section \<open>The reader and its continuous inventory (src/ex10\_api/ex10\_reader.c)\<close>

subsection \<open>Results of SDK calls\<close>

text \<open>
  \<open>struct Ex10Result\<close> and its enumerations are declared in headers that are not among
  the sources. The model keeps the members the reader reads: the \<open>error\<close> flag, the
  \<open>module\<close>, the \<open>result_code\<close> union (a device code or an SDK code) and the
  \<open>ops_status\<close> view of the \<open>device_status\<close> union. Each enumeration lists the
  enumerators the sources name; its last constructor stands for every other value.
  Members whose name is used by two structures carry a suffix in the later one.
\<close>

datatype Ex10Module =
    Ex10ModuleUndefined | Ex10ModuleDevice | Ex10ModuleApplication | Ex10ModuleReader
  | Ex10ModuleUseCase | Ex10ModuleOther nat

datatype Ex10DeviceResultCode =
    Ex10DeviceSuccess | Ex10DeviceErrorCommandsNoResponse | Ex10DeviceErrorCommandsWithResponse
  | Ex10DeviceErrorOps | Ex10DeviceErrorOpsTimeout | Ex10DeviceErrorOther nat

datatype Ex10SdkResultCode =
    Ex10SdkSuccess | Ex10SdkErrorNullPointer | Ex10SdkErrorBadParamValue | Ex10SdkErrorOpRunning
  | Ex10SdkErrorAggBufferOverflow | Ex10AboveThreshold | Ex10SdkEventFifoFull
  | Ex10InventoryInvalidParam | Ex10SdkLmacOverload | Ex10InventorySummaryReasonInvalid
  | Ex10SdkErrorOther nat

datatype Ex10ResultCode = device Ex10DeviceResultCode | sdk Ex10SdkResultCode

datatype OpId = SendSelectOp | OtherOp nat

datatype OpsStatusError = ErrorNone | ErrorInvalidTxState | ErrorOther nat

record OpsStatusFields =
  op_id :: OpId
  error_ops :: OpsStatusError

record Ex10Result =
  error :: bool
  module :: Ex10Module
  result_code :: Ex10ResultCode
  ops_status :: OpsStatusFields

text \<open>
  Modelled from the spec: \<open>make_ex10_success\<close> and \<open>make_ex10_sdk_error\<close>, the result
  constructors of the SDK, are missing from the sources. A success carries no error; an
  SDK error carries the error flag, the reporting module and the SDK code, with a zeroed
  device status.
\<close>

definition make_ex10_success :: Ex10Result where
  "make_ex10_success =
     \<lparr> error = False, module = Ex10ModuleUndefined, result_code = sdk Ex10SdkSuccess,
       ops_status = \<lparr> op_id = OtherOp 0, error_ops = ErrorNone \<rparr> \<rparr>"

definition make_ex10_sdk_error :: "Ex10Module \<Rightarrow> Ex10SdkResultCode \<Rightarrow> Ex10Result" where
  "make_ex10_sdk_error m c =
     \<lparr> error = True, module = m, result_code = sdk c,
       ops_status = \<lparr> op_id = OtherOp 0, error_ops = ErrorNone \<rparr> \<rparr>"

subsection \<open>Inventory configuration and session state\<close>

text \<open>
  The register structures and \<open>struct ContinuousInventoryState\<close> are declared in headers
  that are not among the sources; their members are those the sources initialise and
  read. Q values and the carried counters are 8-bit values, as the packet fields they are
  copied from; counters and times are 32-bit values.
\<close>

datatype InventoryState = InvIdle | InvOngoing | InvStopRequested

datatype InventorySummaryReason =
    InventorySummaryNone | InventorySummaryDone | InventorySummaryHost
  | InventorySummaryRegulatory | InventorySummaryEventFifoFull | InventorySummaryTxNotRampedUp
  | InventorySummaryInvalidParam | InventorySummaryLmacOverload | InventorySummaryUnsupported
  | InventorySummaryOther nat

datatype StopReason =
    SRNone | SRHost | SRMaxNumberOfRounds | SRMaxNumberOfTags | SRMaxDuration | SROpError
  | SRSdkTimeoutError | SRDeviceCommandError | SRDeviceAggregateBufferOverflow
  | SRDeviceRampCallbackError | SROther nat

definition target_A :: "8 word" where
  "target_A = 0"

definition target_B :: "8 word" where
  "target_B = 1"

record InventoryRoundControlFields =
  initial_q :: "8 word"
  max_q :: "8 word"
  min_q :: "8 word"
  num_min_q_cycles :: "8 word"
  fixed_q_mode :: bool
  q_increase_use_query :: bool
  q_decrease_use_query :: bool
  session :: "8 word"
  select :: "8 word"
  target_cfg :: "8 word"
  halt_on_all_tags :: bool
  tag_focus_enable :: bool
  fast_id_enable :: bool

record InventoryRoundControl_2Fields =
  max_queries_since_valid_epc :: "16 word"
  starting_min_q_count :: "8 word"
  starting_max_queries_since_valid_epc_count :: "8 word"

record StopConditions =
  max_number_of_rounds :: "32 word"
  max_number_of_tags :: "32 word"
  max_duration_us :: "32 word"

record ReaderInventoryParams =
  antenna :: "8 word"
  rf_mode :: nat
  tx_power_cdbm :: int
  inventory_config :: InventoryRoundControlFields
  inventory_config_2 :: InventoryRoundControl_2Fields
  send_selects :: bool
  stop_conditions :: StopConditions
  dual_target :: bool
  remain_on :: bool
  start_time_us :: "32 word"

record ContinuousInventoryState =
  state :: InventoryState
  done_reason :: InventorySummaryReason
  initial_inventory_config :: InventoryRoundControlFields
  previous_q :: "8 word"
  min_q_count :: "8 word"
  queries_since_valid_epc_count :: "8 word"
  stop_reason :: StopReason
  round_count :: "32 word"
  tag_count :: "32 word"
  target :: "8 word"

subsection \<open>Event packets\<close>

text \<open>
  A parsed packet has a type tag, the microsecond counter and the static data of the
  union member its type selects; the model joins tag and static data in one datatype.
  The dynamic data is never read by the reader and is left out.
\<close>

record InventoryRoundSummaryFields =
  reason_irs :: InventorySummaryReason
  final_q :: "8 word"
  min_q_count_irs :: "8 word"
  queries_since_valid_epc_count_irs :: "8 word"

record ContinuousInventorySummaryFields =
  duration_us :: "32 word"
  number_of_inventory_rounds :: "32 word"
  number_of_tags :: "32 word"
  reason :: StopReason
  last_op_id :: OpId
  last_op_error :: OpsStatusError
  packet_rfu_1 :: "8 word"

datatype EventPacketType =
    TagRead
  | InventoryRoundSummary InventoryRoundSummaryFields
  | ContinuousInventorySummary ContinuousInventorySummaryFields
  | Ex10ResultPacket Ex10Result
  | OtherPacketType nat
  | InvalidPacketType

record EventFifoPacket =
  packet_type :: EventPacketType
  us_counter :: "32 word"

text \<open>
  A FIFO buffer node holds the bytes of zero or more packets; \<open>parse_event_packet\<close> is not
  among the sources, so a node is modelled by the packets the parser yields from it, in
  order. \<open>InvalidPacketType\<close> is a packet for which \<open>get_packet_type_valid\<close> is false.
\<close>

type_synonym FifoBufferNode = "EventFifoPacket list"

subsection \<open>The collaborators of the reader\<close>

text \<open>
  The protocol, ops, RF power, inventory, region and queue modules are reached through
  interface tables and are not among the sources. Every call the reader makes to them is
  recorded, with its arguments, in the history \<open>calls\<close>; what a call returns is given by
  the environment as a function of the history up to and including that call, so that a
  theorem about every environment covers every deterministic behaviour of the device.
  Calls that only read or store calibration values (ADC temperature, ramp variables,
  droop compensation) return nothing the reader inspects and are not recorded.
\<close>

datatype ExtCall =
    GetDeviceTime
  | IsOpCurrentlyRunning
  | SetRfMode nat
  | GetCwIsOn
  | UpdateChannelTimeTracking
  | MeasureAndReadAdcTemperature
  | SetSingleFrequency "32 word"
  | RfPowerBuildCwConfigs "8 word" nat int
  | CwOn bool
  | WaitOpCompletion
  | ReadRxGainControlReg
  | RunInventory InventoryRoundControlFields InventoryRoundControl_2Fields bool
  | MakeEx10ResultFifoPacket Ex10Result "32 word"
  | ListNodePushBack FifoBufferNode
  | InsertFifoEvent bool EventFifoPacket
  | StopOpAndRampDown
  | ClearInfoFromPackets
  | HelpersDiscardPackets bool bool bool
  | Ex10DiscardPackets bool bool bool
  | LbtSetMaxRssiMeasurements nat
  | AntennaDisconnectDeinit
  | LbtInit

record Ex10Env =
  get_device_time :: "ExtCall list \<Rightarrow> 32 word"
  is_op_currently_running :: "ExtCall list \<Rightarrow> bool"
  get_cw_is_on :: "ExtCall list \<Rightarrow> bool"
  result_node_allocated :: "ExtCall list \<Rightarrow> bool"
  device_result :: "ExtCall list \<Rightarrow> Ex10Result"
  ex10_result_to_continuous_inventory_error :: "Ex10Result \<Rightarrow> StopReason"

text \<open>
  \<open>struct Ex10ReaderPrivate\<close>, with the history of calls. The stored analog RX fields
  are written by the register read of the ramp and read by no function modelled here.
\<close>

record Ex10ReaderPrivate =
  inventory_params :: ReaderInventoryParams
  inventory_state :: ContinuousInventoryState
  calls :: "ExtCall list"

definition call_result :: "Ex10Env \<Rightarrow> ExtCall \<Rightarrow> Ex10ReaderPrivate \<Rightarrow> Ex10Result \<times> Ex10ReaderPrivate" where
  "call_result env c w = (device_result env (calls w @ [c]), w\<lparr>calls := calls w @ [c]\<rparr>)"

definition call_bool :: "(ExtCall list \<Rightarrow> bool) \<Rightarrow> ExtCall \<Rightarrow> Ex10ReaderPrivate \<Rightarrow> bool \<times> Ex10ReaderPrivate" where
  "call_bool f c w = (f (calls w @ [c]), w\<lparr>calls := calls w @ [c]\<rparr>)"

definition call_void :: "ExtCall \<Rightarrow> Ex10ReaderPrivate \<Rightarrow> Ex10ReaderPrivate" where
  "call_void c w = w\<lparr>calls := calls w @ [c]\<rparr>"

text \<open>The static initialiser of \<open>reader\<close>, before any call.\<close>

definition zero_inventory_config :: InventoryRoundControlFields where
  "zero_inventory_config =
     \<lparr> initial_q = 0, max_q = 0, min_q = 0, num_min_q_cycles = 0, fixed_q_mode = False,
       q_increase_use_query = False, q_decrease_use_query = False, session = 0, select = 0,
       target_cfg = 0, halt_on_all_tags = False, tag_focus_enable = False,
       fast_id_enable = False \<rparr>"

definition zero_inventory_config_2 :: InventoryRoundControl_2Fields where
  "zero_inventory_config_2 =
     \<lparr> max_queries_since_valid_epc = 0, starting_min_q_count = 0,
       starting_max_queries_since_valid_epc_count = 0 \<rparr>"

definition zero_inventory_state :: ContinuousInventoryState where
  "zero_inventory_state =
     \<lparr> state = InvIdle, done_reason = InventorySummaryNone,
       initial_inventory_config = zero_inventory_config, previous_q = 0, min_q_count = 0,
       queries_since_valid_epc_count = 0, stop_reason = SRNone, round_count = 0,
       tag_count = 0, target = target_A \<rparr>"

definition reader :: Ex10ReaderPrivate where
  "reader =
     \<lparr> inventory_params =
         \<lparr> antenna = 0, rf_mode = 0, tx_power_cdbm = 0,
           inventory_config = zero_inventory_config,
           inventory_config_2 = zero_inventory_config_2,
           send_selects = False,
           stop_conditions =
             \<lparr> max_number_of_rounds = 0, max_number_of_tags = 0, max_duration_us = 0 \<rparr>,
           dual_target = False, remain_on = False, start_time_us = 0 \<rparr>,
       inventory_state = zero_inventory_state,
       calls = [] \<rparr>"

subsection \<open>Publishing the summary packet\<close>

text \<open>
  Lines 247--296: the reason and the op fields of the summary are overwritten from an
  error result. The device code is read when the module is \<open>Ex10ModuleDevice\<close>, the SDK
  code otherwise; a result whose code is of the other kind takes the default branch.
\<close>

definition summary_of_error :: "Ex10Result \<Rightarrow> ContinuousInventorySummaryFields \<Rightarrow> ContinuousInventorySummaryFields" where
  "summary_of_error ex10_result summary =
     (if error ex10_result then
        (if module ex10_result = Ex10ModuleDevice then
           (case result_code ex10_result of
              device Ex10DeviceErrorCommandsNoResponse \<Rightarrow> summary\<lparr>reason := SRDeviceCommandError\<rparr>
            | device Ex10DeviceErrorCommandsWithResponse \<Rightarrow> summary\<lparr>reason := SRDeviceCommandError\<rparr>
            | device Ex10DeviceErrorOps \<Rightarrow>
                summary\<lparr>last_op_id := op_id (ops_status ex10_result),
                        last_op_error := error_ops (ops_status ex10_result),
                        reason := SROpError\<rparr>
            | device Ex10DeviceErrorOpsTimeout \<Rightarrow>
                summary\<lparr>last_op_id := op_id (ops_status ex10_result),
                        last_op_error := error_ops (ops_status ex10_result),
                        reason := SRSdkTimeoutError\<rparr>
            | _ \<Rightarrow> summary)
         else
           (case result_code ex10_result of
              sdk Ex10SdkErrorAggBufferOverflow \<Rightarrow> summary\<lparr>reason := SRDeviceAggregateBufferOverflow\<rparr>
            | sdk Ex10AboveThreshold \<Rightarrow> summary\<lparr>reason := SRDeviceRampCallbackError\<rparr>
            | _ \<Rightarrow> summary))
      else summary)"

definition continuous_inventory_summary :: "EventFifoPacket \<Rightarrow> Ex10Result \<Rightarrow> Ex10ReaderPrivate \<Rightarrow> ContinuousInventorySummaryFields" where
  "continuous_inventory_summary event_packet ex10_result w =
     summary_of_error ex10_result
       \<lparr> duration_us = us_counter event_packet - start_time_us (inventory_params w),
         number_of_inventory_rounds = round_count (inventory_state w),
         number_of_tags = tag_count (inventory_state w),
         reason = stop_reason (inventory_state w),
         last_op_id = OtherOp 0,
         last_op_error = ErrorNone,
         packet_rfu_1 = 0 \<rparr>"

definition push_continuous_inventory_summary_packet :: "Ex10Env \<Rightarrow> EventFifoPacket \<Rightarrow> Ex10Result \<Rightarrow> Ex10ReaderPrivate \<Rightarrow> Ex10ReaderPrivate" where
  "push_continuous_inventory_summary_packet env event_packet ex10_result w =
     (let summary_packet =
            \<lparr> packet_type = ContinuousInventorySummary
                              (continuous_inventory_summary event_packet ex10_result w),
              us_counter = us_counter event_packet \<rparr>
      in snd (call_result env (InsertFifoEvent True summary_packet) w))"

subsection \<open>Stop conditions\<close>

definition elapsed_us :: "32 word \<Rightarrow> 32 word \<Rightarrow> 32 word" where
  "elapsed_us start timestamp_us =
     (if start > timestamp_us
      then (0xFFFFFFFF - start) + timestamp_us + 1
      else timestamp_us - start)"

definition check_stop_conditions :: "32 word \<Rightarrow> Ex10ReaderPrivate \<Rightarrow> bool \<times> Ex10ReaderPrivate" where
  "check_stop_conditions timestamp_us w =
     (let st = inventory_state w; sc = stop_conditions (inventory_params w) in
      if stop_reason st \<noteq> SRNone then (True, w)
      else if max_number_of_rounds sc > 0 \<and> round_count st \<ge> max_number_of_rounds sc
        then (True, w\<lparr>inventory_state := st\<lparr>stop_reason := SRMaxNumberOfRounds\<rparr>\<rparr>)
      else if max_number_of_tags sc > 0 \<and> tag_count st \<ge> max_number_of_tags sc
        then (True, w\<lparr>inventory_state := st\<lparr>stop_reason := SRMaxNumberOfTags\<rparr>\<rparr>)
      else if max_duration_us sc > 0 \<and>
              elapsed_us (start_time_us (inventory_params w)) timestamp_us \<ge> max_duration_us sc
        then (True, w\<lparr>inventory_state := st\<lparr>stop_reason := SRMaxDuration\<rparr>\<rparr>)
      else if state st = InvStopRequested
        then (True, w\<lparr>inventory_state := st\<lparr>stop_reason := SRHost\<rparr>\<rparr>)
      else (False, w))"

subsection \<open>Ramping up and starting a round\<close>

definition build_cw_configs :: "Ex10Env \<Rightarrow> 8 word \<Rightarrow> nat \<Rightarrow> int \<Rightarrow> 32 word \<Rightarrow> bool \<Rightarrow> Ex10ReaderPrivate \<Rightarrow> Ex10Result \<times> Ex10ReaderPrivate" where
  "build_cw_configs env antenna_v rf_mode_v tx_power frequency_khz remain_on_v w =
     (let (cw_is_on, w1) = call_bool (get_cw_is_on env) GetCwIsOn w;
          (r, w2) = (if \<not> cw_is_on then call_result env MeasureAndReadAdcTemperature w1
                     else (make_ex10_success, w1))
      in if \<not> cw_is_on \<and> error r then (r, w2)
         else
           (let w3 = (if frequency_khz \<noteq> 0 then call_void (SetSingleFrequency frequency_khz) w2
                      else w2);
                w4 = call_void (RfPowerBuildCwConfigs antenna_v rf_mode_v tx_power) w3
            in (make_ex10_success, w4)))"

text \<open>
  The configuration built for the ramp is passed on to \<open>cw_on\<close>; of its content the
  model records whether the regulatory timers were disabled (\<open>remain_on\<close>).
\<close>

definition reader_ramp_for_inventory :: "Ex10Env \<Rightarrow> 8 word \<Rightarrow> nat \<Rightarrow> int \<Rightarrow> bool \<Rightarrow> Ex10ReaderPrivate \<Rightarrow> Ex10Result \<times> Ex10ReaderPrivate" where
  "reader_ramp_for_inventory env antenna_v rf_mode_v tx_power remain_on_v w =
     (let (r1, w1) = call_result env UpdateChannelTimeTracking w in
      if error r1 then (r1, w1)
      else
        (let (r2, w2) = build_cw_configs env antenna_v rf_mode_v tx_power 0 remain_on_v w1 in
         if error r2 then (r2, w2)
         else
           (let (r3, w3) = call_result env (CwOn remain_on_v) w2 in
            if error r3 then (r3, w3)
            else
              (let (r4, w4) = call_result env WaitOpCompletion w3 in
               if error r4 then (r4, w4)
               else call_result env ReadRxGainControlReg w4))))"

text \<open>
  Lines 844--864 of \<open>start_inventory\<close>: the round is run, and run once more after a new
  ramp when the first attempt reports an invalid transmitter state on the select op.
\<close>

definition select_race :: "Ex10Result \<Rightarrow> bool" where
  "select_race r \<longleftrightarrow>
     error r \<and> op_id (ops_status r) = SendSelectOp \<and> error_ops (ops_status r) = ErrorInvalidTxState"

definition run_inventory_retry :: "Ex10Env \<Rightarrow> 8 word \<Rightarrow> nat \<Rightarrow> int \<Rightarrow> InventoryRoundControlFields \<Rightarrow> InventoryRoundControl_2Fields \<Rightarrow> bool \<Rightarrow> bool \<Rightarrow> Ex10ReaderPrivate \<Rightarrow> Ex10Result \<times> Ex10ReaderPrivate" where
  "run_inventory_retry env antenna_v rf_mode_v tx_power cfg cfg2 send_selects_v remain_on_v w =
     (let (r1, w1) = call_result env (RunInventory cfg cfg2 send_selects_v) w in
      if select_race r1 then
        (let (r2, w2) = reader_ramp_for_inventory env antenna_v rf_mode_v tx_power remain_on_v w1 in
         if error r2 then (r2, w2)
         else call_result env (RunInventory cfg cfg2 send_selects_v) w2)
      else (r1, w1))"

definition start_inventory :: "Ex10Env \<Rightarrow> 8 word \<Rightarrow> nat \<Rightarrow> int \<Rightarrow> InventoryRoundControlFields \<Rightarrow> InventoryRoundControl_2Fields \<Rightarrow> bool \<Rightarrow> bool \<Rightarrow> Ex10ReaderPrivate \<Rightarrow> Ex10Result \<times> Ex10ReaderPrivate" where
  "start_inventory env antenna_v rf_mode_v tx_power cfg cfg2 send_selects_v remain_on_v w =
     (let (running, w1) = call_bool (is_op_currently_running env) IsOpCurrentlyRunning w in
      if running then (make_ex10_success, w1)
      else
        (let w2 = w1\<lparr>inventory_state := (inventory_state w1)\<lparr>target := target_cfg cfg\<rparr>\<rparr>;
             w3 = w2\<lparr>inventory_params :=
                       (inventory_params w2)\<lparr>antenna := antenna_v, rf_mode := rf_mode_v\<rparr>\<rparr>;
             (r1, w4) = call_result env (SetRfMode rf_mode_v) w3
         in if error r1 then (r1, w4)
            else
              (let (cw_is_on, w5) = call_bool (get_cw_is_on env) GetCwIsOn w4;
                   (r2, w6) = (if \<not> cw_is_on
                               then reader_ramp_for_inventory env antenna_v rf_mode_v tx_power
                                      remain_on_v w5
                               else (r1, w5))
               in if \<not> cw_is_on \<and> error r2 then (r2, w6)
                  else run_inventory_retry env antenna_v rf_mode_v tx_power cfg cfg2
                         send_selects_v remain_on_v w6)))"

definition inventory :: "Ex10Env \<Rightarrow> 8 word \<Rightarrow> nat \<Rightarrow> int \<Rightarrow> InventoryRoundControlFields \<Rightarrow> InventoryRoundControl_2Fields \<Rightarrow> bool \<Rightarrow> bool \<Rightarrow> Ex10ReaderPrivate \<Rightarrow> Ex10Result \<times> Ex10ReaderPrivate" where
  "inventory env antenna_v rf_mode_v tx_power cfg cfg2 send_selects_v remain_on_v w =
     start_inventory env antenna_v rf_mode_v tx_power cfg cfg2 send_selects_v remain_on_v w"

subsection \<open>Starting a session\<close>

text \<open>A pointer argument is an option: \<open>None\<close> is \<open>NULL\<close>.\<close>

definition continuous_inventory :: "Ex10Env \<Rightarrow> 8 word \<Rightarrow> nat \<Rightarrow> int \<Rightarrow> InventoryRoundControlFields option \<Rightarrow> InventoryRoundControl_2Fields option \<Rightarrow> bool \<Rightarrow> StopConditions option \<Rightarrow> bool \<Rightarrow> bool \<Rightarrow> Ex10ReaderPrivate \<Rightarrow> Ex10Result \<times> Ex10ReaderPrivate" where
  "continuous_inventory env antenna_v rf_mode_v tx_power cfg_ptr cfg2_ptr send_selects_v
       stop_ptr dual_target_v remain_on_v w =
     (case (stop_ptr, cfg_ptr, cfg2_ptr) of
        (Some stop_v, Some cfg, Some cfg2) \<Rightarrow>
          (let w1 = w\<lparr>inventory_state := (inventory_state w)
                       \<lparr>state := InvOngoing, stop_reason := SRNone, round_count := 0\<rparr>\<rparr>;
               w2 = w1\<lparr>inventory_state := (inventory_state w1)
                       \<lparr>initial_inventory_config := cfg, previous_q := 0, min_q_count := 0,
                        queries_since_valid_epc_count := 0, done_reason := InventorySummaryNone,
                        tag_count := 0, target := target_cfg cfg\<rparr>\<rparr>;
               w3 = w2\<lparr>inventory_params := (inventory_params w2)
                       \<lparr>antenna := antenna_v, rf_mode := rf_mode_v, tx_power_cdbm := tx_power,
                        inventory_config := cfg, inventory_config_2 := cfg2,
                        send_selects := send_selects_v, stop_conditions := stop_v,
                        dual_target := dual_target_v, remain_on := remain_on_v\<rparr>\<rparr>;
               w4 = call_void GetDeviceTime w3;
               w5 = w4\<lparr>inventory_params := (inventory_params w4)
                       \<lparr>start_time_us := get_device_time env (calls w4)\<rparr>\<rparr>;
               (ex10_result, w6) = start_inventory env antenna_v rf_mode_v tx_power cfg cfg2
                                     send_selects_v remain_on_v w5
           in if error ex10_result
              then (ex10_result, w6\<lparr>inventory_state := (inventory_state w6)\<lparr>state := InvIdle\<rparr>\<rparr>)
              else (ex10_result, w6))
      | _ \<Rightarrow> (make_ex10_sdk_error Ex10ModuleReader Ex10SdkErrorNullPointer, w))"

subsection \<open>Continuing a session\<close>

text \<open>Lines 385--410: whether Q is reset, and the target of the next round.\<close>

definition continue_reset_q :: "Ex10Env \<Rightarrow> Ex10ReaderPrivate \<Rightarrow> bool \<times> Ex10ReaderPrivate" where
  "continue_reset_q env w =
     (if dual_target (inventory_params w) then
        (let (reset1, w1) =
               (if done_reason (inventory_state w) = InventorySummaryDone
                then (True, w\<lparr>inventory_state := (inventory_state w)
                                \<lparr>target := xor (target (inventory_state w)) 1\<rparr>\<rparr>)
                else (False, w));
             (cw_is_on, w2) = call_bool (get_cw_is_on env) GetCwIsOn w1
         in if \<not> cw_is_on \<and> session (inventory_config (inventory_params w2)) = 0
            then (True, w2\<lparr>inventory_state := (inventory_state w2)\<lparr>target := target_A\<rparr>\<rparr>)
            else (reset1, w2))
      else (done_reason (inventory_state w) = InventorySummaryDone, w))"

text \<open>Lines 412--437: the configuration of the next round.\<close>

definition continue_inventory_config :: "bool \<Rightarrow> Ex10ReaderPrivate \<Rightarrow> InventoryRoundControlFields" where
  "continue_inventory_config reset_q w =
     (let cfg = (inventory_config (inventory_params w))\<lparr>target_cfg := target (inventory_state w)\<rparr>
      in if reset_q
         then cfg\<lparr>initial_q := initial_q (initial_inventory_config (inventory_state w))\<rparr>
         else if done_reason (inventory_state w) = InventorySummaryRegulatory
         then cfg\<lparr>initial_q := previous_q (inventory_state w)\<rparr>
         else cfg)"

definition continue_inventory_config_2 :: "bool \<Rightarrow> Ex10ReaderPrivate \<Rightarrow> InventoryRoundControl_2Fields" where
  "continue_inventory_config_2 reset_q w =
     (let cfg2 = inventory_config_2 (inventory_params w)
      in if reset_q
         then cfg2\<lparr>starting_min_q_count := 0, starting_max_queries_since_valid_epc_count := 0\<rparr>
         else if done_reason (inventory_state w) = InventorySummaryRegulatory
         then cfg2\<lparr>starting_min_q_count := min_q_count (inventory_state w),
                   starting_max_queries_since_valid_epc_count :=
                     queries_since_valid_epc_count (inventory_state w)\<rparr>
         else cfg2)"

definition continue_continuous_inventory :: "Ex10Env \<Rightarrow> Ex10ReaderPrivate \<Rightarrow> Ex10Result \<times> Ex10ReaderPrivate" where
  "continue_continuous_inventory env w =
     (let (reset_q, w1) = continue_reset_q env w
      in start_inventory env
           (antenna (inventory_params w1))
           (rf_mode (inventory_params w1))
           (tx_power_cdbm (inventory_params w1))
           (continue_inventory_config reset_q w1)
           (continue_inventory_config_2 reset_q w1)
           (send_selects (inventory_params w1))
           (remain_on (inventory_params w1))
           w1)"

subsection \<open>Handling errors and packets\<close>

text \<open>
  \<open>make_ex10_result_fifo_packet\<close> is not among the sources: it returns a buffer node
  holding one result packet with the given result and counter, or \<open>NULL\<close>; the
  environment says which.
\<close>

definition handle_continuous_inventory_error :: "Ex10Env \<Rightarrow> Ex10Result \<Rightarrow> EventFifoPacket \<Rightarrow> Ex10ReaderPrivate \<Rightarrow> Ex10ReaderPrivate" where
  "handle_continuous_inventory_error env ex10_result packet_v w =
     (let (allocated, w1) =
            call_bool (result_node_allocated env)
              (MakeEx10ResultFifoPacket ex10_result (us_counter packet_v)) w;
          w2 = (if allocated
                then call_void (ListNodePushBack
                       [\<lparr> packet_type = Ex10ResultPacket ex10_result,
                          us_counter = us_counter packet_v \<rparr>]) w1
                else w1);
          w3 = w2\<lparr>inventory_state := (inventory_state w2)\<lparr>state := InvIdle\<rparr>\<rparr>;
          w4 = w3\<lparr>inventory_state := (inventory_state w3)
                  \<lparr>stop_reason := ex10_result_to_continuous_inventory_error env ex10_result\<rparr>\<rparr>
      in push_continuous_inventory_summary_packet env packet_v ex10_result w4)"

text \<open>Lines 515--562: the session fields taken from a round summary, and its reason.\<close>

definition round_summary_update :: "InventoryRoundSummaryFields \<Rightarrow> Ex10ReaderPrivate \<Rightarrow> Ex10Result \<times> Ex10ReaderPrivate" where
  "round_summary_update irs w =
     (let w1 = w\<lparr>inventory_state := (inventory_state w)
                  \<lparr>min_q_count := min_q_count_irs irs,
                   queries_since_valid_epc_count := queries_since_valid_epc_count_irs irs,
                   done_reason := reason_irs irs\<rparr>\<rparr>
      in case reason_irs irs of
           InventorySummaryDone \<Rightarrow>
             (make_ex10_success,
              w1\<lparr>inventory_state := (inventory_state w1)
                   \<lparr>round_count := round_count (inventory_state w1) + 1\<rparr>\<rparr>)
         | InventorySummaryHost \<Rightarrow>
             (make_ex10_success,
              w1\<lparr>inventory_state := (inventory_state w1)
                   \<lparr>round_count := round_count (inventory_state w1) + 1\<rparr>\<rparr>)
         | InventorySummaryRegulatory \<Rightarrow>
             (make_ex10_success,
              w1\<lparr>inventory_state := (inventory_state w1)\<lparr>previous_q := final_q irs\<rparr>\<rparr>)
         | InventorySummaryUnsupported \<Rightarrow> (make_ex10_success, w1)
         | InventorySummaryTxNotRampedUp \<Rightarrow> (make_ex10_success, w1)
         | InventorySummaryEventFifoFull \<Rightarrow>
             (make_ex10_sdk_error Ex10ModuleReader Ex10SdkEventFifoFull, w1)
         | InventorySummaryInvalidParam \<Rightarrow>
             (make_ex10_sdk_error Ex10ModuleReader Ex10InventoryInvalidParam, w1)
         | InventorySummaryLmacOverload \<Rightarrow>
             (make_ex10_sdk_error Ex10ModuleReader Ex10SdkLmacOverload, w1)
         | _ \<Rightarrow> (make_ex10_sdk_error Ex10ModuleReader Ex10InventorySummaryReasonInvalid, w1))"

text \<open>Lines 513--587: an inventory round summary received while a session is active.\<close>

definition handle_round_summary :: "Ex10Env \<Rightarrow> EventFifoPacket \<Rightarrow> InventoryRoundSummaryFields \<Rightarrow> Ex10ReaderPrivate \<Rightarrow> Ex10ReaderPrivate" where
  "handle_round_summary env packet_v irs w =
     (let (ex10_result, w1) = round_summary_update irs w in
      if error ex10_result then handle_continuous_inventory_error env ex10_result packet_v w1
      else
        (let (stop, w2) = check_stop_conditions (us_counter packet_v) w1 in
         if stop then
           push_continuous_inventory_summary_packet env packet_v ex10_result
             (w2\<lparr>inventory_state := (inventory_state w2)\<lparr>state := InvIdle\<rparr>\<rparr>)
         else
           (let (r, w3) = continue_continuous_inventory env w2 in
            if error r then handle_continuous_inventory_error env r packet_v w3
            else w3)))"

text \<open>Lines 507--588: one valid packet of the buffer.\<close>

definition handle_packet :: "Ex10Env \<Rightarrow> EventFifoPacket \<Rightarrow> Ex10ReaderPrivate \<Rightarrow> Ex10ReaderPrivate" where
  "handle_packet env packet_v w =
     (if state (inventory_state w) \<noteq> InvIdle then
        (case packet_type packet_v of
           TagRead \<Rightarrow>
             w\<lparr>inventory_state := (inventory_state w)
                  \<lparr>tag_count := tag_count (inventory_state w) + 1\<rparr>\<rparr>
         | InventoryRoundSummary irs \<Rightarrow> handle_round_summary env packet_v irs w
         | _ \<Rightarrow> w)
      else w)"

text \<open>The loop over the packets of a buffer stops at the first invalid packet.\<close>

fun fifo_data_loop :: "Ex10Env \<Rightarrow> EventFifoPacket list \<Rightarrow> Ex10ReaderPrivate \<Rightarrow> Ex10ReaderPrivate" where
  "fifo_data_loop env [] w = w"
| "fifo_data_loop env (packet_v # bytes) w =
     (if packet_type packet_v = InvalidPacketType then w
      else fifo_data_loop env bytes (handle_packet env packet_v w))"

definition fifo_data_handler :: "Ex10Env \<Rightarrow> FifoBufferNode \<Rightarrow> Ex10ReaderPrivate \<Rightarrow> Ex10ReaderPrivate" where
  "fifo_data_handler env fifo_buffer_node w =
     call_void (ListNodePushBack fifo_buffer_node) (fifo_data_loop env fifo_buffer_node w)"

subsection \<open>Stopping\<close>

definition stop_transmitting :: "Ex10Env \<Rightarrow> Ex10ReaderPrivate \<Rightarrow> Ex10Result \<times> Ex10ReaderPrivate" where
  "stop_transmitting env w =
     (let w1 = (if state (inventory_state w) \<noteq> InvIdle
                then w\<lparr>inventory_state := (inventory_state w)\<lparr>state := InvStopRequested\<rparr>\<rparr>
                else w)
      in call_result env StopOpAndRampDown w1)"

subsection \<open>Observing the history\<close>

text \<open>The rounds issued: the \<open>run_inventory\<close> calls of a history, in order.\<close>

fun is_run_inventory :: "ExtCall \<Rightarrow> bool" where
  "is_run_inventory (RunInventory cfg cfg2 sel) = True"
| "is_run_inventory _ = False"

definition run_inventory_calls :: "ExtCall list \<Rightarrow> ExtCall list" where
  "run_inventory_calls tr = filter is_run_inventory tr"

section \<open>The listen-before-talk helper (src/ex10\_api/ex10\_lbt\_helpers.c)\<close>

text \<open>
  The helper parameter structures are declared in a header that is not among the
  sources; their members are those the helper reads, suffixed where the reader's
  parameters use the same name. The stop conditions pointer is dereferenced without
  a check and is modelled by the structure it points to.
\<close>

datatype InventoryHelperReturns =
  InvHelperSuccess | InvHelperOpStatusError | InvHelperStopConditions | InvHelperTimeout

record InventoryHelperParams =
  antenna_ihp :: "8 word"
  rf_mode_ihp :: nat
  tx_power_cdbm_ihp :: int
  inventory_config_ihp :: "InventoryRoundControlFields option"
  inventory_config_2_ihp :: "InventoryRoundControl_2Fields option"
  send_selects_ihp :: bool
  remain_on_ihp :: bool
  dual_target_ihp :: bool

record ContInventoryHelperParams =
  inventory_params_cihp :: InventoryHelperParams
  stop_conditions_cihp :: StopConditions

definition continuous_inventory_lbt :: "Ex10Env \<Rightarrow> ContInventoryHelperParams \<Rightarrow> Ex10ReaderPrivate \<Rightarrow> InventoryHelperReturns \<times> Ex10ReaderPrivate" where
  "continuous_inventory_lbt env cihp w =
     (let ihp = inventory_params_cihp cihp in
      if max_number_of_rounds (stop_conditions_cihp cihp) = 0 \<and>
         max_number_of_tags (stop_conditions_cihp cihp) = 0 \<and>
         max_duration_us (stop_conditions_cihp cihp) = 0
      then (InvHelperStopConditions, w)
      else
        (let w1 = call_void ClearInfoFromPackets w;
             w2 = call_void (HelpersDiscardPackets False True False) w1;
             w3 = call_void (LbtSetMaxRssiMeasurements 5000) w2;
             w4 = call_void AntennaDisconnectDeinit w3;
             w5 = call_void LbtInit w4;
             (ex10_result, w6) =
               continuous_inventory env (antenna_ihp ihp) (rf_mode_ihp ihp)
                 (tx_power_cdbm_ihp ihp) (inventory_config_ihp ihp)
                 (inventory_config_2_ihp ihp) (send_selects_ihp ihp)
                 (Some (stop_conditions_cihp cihp)) (dual_target_ihp ihp) False w5
         in if error ex10_result
            then (InvHelperOpStatusError, call_void (Ex10DiscardPackets True True True) w6)
            else (InvHelperSuccess, w6)))"

section \<open>Sessions as sequences of events\<close>

text \<open>
  After a session is started the reader is driven by the delivery of FIFO buffers and by
  the caller's \<open>stop_transmitting\<close> and \<open>inventory\<close> calls, in any order.
\<close>

datatype ReaderEvent =
    FifoData FifoBufferNode
  | StopTransmitting
  | Inventory "8 word" nat int InventoryRoundControlFields InventoryRoundControl_2Fields bool bool

fun reader_event :: "Ex10Env \<Rightarrow> ReaderEvent \<Rightarrow> Ex10ReaderPrivate \<Rightarrow> Ex10ReaderPrivate" where
  "reader_event env (FifoData node) w = fifo_data_handler env node w"
| "reader_event env StopTransmitting w = snd (stop_transmitting env w)"
| "reader_event env (Inventory a m p cfg cfg2 sel ro) w = snd (inventory env a m p cfg cfg2 sel ro w)"

fun reader_events :: "Ex10Env \<Rightarrow> ReaderEvent list \<Rightarrow> Ex10ReaderPrivate \<Rightarrow> Ex10ReaderPrivate" where
  "reader_events env [] w = w"
| "reader_events env (e # es) w = reader_events env es (reader_event env e w)"

text \<open>While the stop reason is set, the state is idle.\<close>

definition stopped_is_idle :: "Ex10ReaderPrivate \<Rightarrow> bool" where
  "stopped_is_idle w \<longleftrightarrow>
     (stop_reason (inventory_state w) \<noteq> SRNone \<longrightarrow> state (inventory_state w) = InvIdle)"

section \<open>Concrete environments and inputs\<close>

text \<open>
  Environments and inputs on which the model is evaluated. In \<open>env_ok\<close> no op is
  running, the carrier is off, every call succeeds, the device time is 0 and no result
  node can be allocated; the variants change one answer each.
\<close>

definition sr_of_result :: "Ex10Result \<Rightarrow> StopReason" where
  "sr_of_result r = (if error r then SROther 0 else SRNone)"

definition env_ok :: Ex10Env where
  "env_ok =
     \<lparr> get_device_time = (\<lambda>tr. 0),
       is_op_currently_running = (\<lambda>tr. False),
       get_cw_is_on = (\<lambda>tr. False),
       result_node_allocated = (\<lambda>tr. False),
       device_result = (\<lambda>tr. make_ex10_success),
       ex10_result_to_continuous_inventory_error = sr_of_result \<rparr>"

definition env_op_running :: Ex10Env where
  "env_op_running = env_ok\<lparr>is_op_currently_running := (\<lambda>tr. True)\<rparr>"

definition env_alloc :: Ex10Env where
  "env_alloc = env_ok\<lparr>result_node_allocated := (\<lambda>tr. True)\<rparr>"

definition op_error_result :: Ex10Result where
  "op_error_result =
     \<lparr> error = True, module = Ex10ModuleDevice, result_code = device Ex10DeviceErrorOps,
       ops_status = \<lparr> op_id = OtherOp 168, error_ops = ErrorOther 3 \<rparr> \<rparr>"

text \<open>The twelve calls of a session start succeed, every later device call fails.\<close>

definition env_later_fail :: Ex10Env where
  "env_later_fail =
     env_alloc\<lparr>device_result :=
                 (\<lambda>tr. if length tr \<le> 12 then make_ex10_success else op_error_result)\<rparr>"

definition select_race_result :: Ex10Result where
  "select_race_result =
     \<lparr> error = True, module = Ex10ModuleDevice, result_code = device Ex10DeviceErrorOps,
       ops_status = \<lparr> op_id = SendSelectOp, error_ops = ErrorInvalidTxState \<rparr> \<rparr>"

text \<open>
  In \<open>env_race\<close> the first \<open>run_inventory\<close> of a history fails with the select race and
  every other call succeeds; in \<open>env_race_always\<close> every \<open>run_inventory\<close> fails with the
  select race; in \<open>env_reramp_fails\<close> every \<open>run_inventory\<close> fails with the select race
  and so does every \<open>cw_on\<close> that follows one.
\<close>

definition env_race :: Ex10Env where
  "env_race =
     env_ok\<lparr>device_result :=
              (\<lambda>tr. if tr \<noteq> [] \<and> is_run_inventory (last tr) \<and>
                        length (run_inventory_calls tr) = 1
                     then select_race_result else make_ex10_success)\<rparr>"

definition env_race_always :: Ex10Env where
  "env_race_always =
     env_ok\<lparr>device_result :=
              (\<lambda>tr. if tr \<noteq> [] \<and> is_run_inventory (last tr)
                     then select_race_result else make_ex10_success)\<rparr>"

definition env_reramp_fails :: Ex10Env where
  "env_reramp_fails =
     env_ok\<lparr>device_result :=
              (\<lambda>tr. if tr \<noteq> [] \<and> is_run_inventory (last tr) then select_race_result
                     else if run_inventory_calls tr \<noteq> [] \<and> tr \<noteq> [] \<and> last tr = CwOn False
                     then op_error_result else make_ex10_success)\<rparr>"

definition example_config :: InventoryRoundControlFields where
  "example_config =
     \<lparr> initial_q = 2, max_q = 15, min_q = 0, num_min_q_cycles = 1, fixed_q_mode = False,
       q_increase_use_query = False, q_decrease_use_query = False, session = 0, select = 0,
       target_cfg = 0, halt_on_all_tags = False, tag_focus_enable = False,
       fast_id_enable = False \<rparr>"

definition example_config_2 :: InventoryRoundControl_2Fields where
  "example_config_2 =
     \<lparr> max_queries_since_valid_epc = 16, starting_min_q_count = 0,
       starting_max_queries_since_valid_epc_count = 0 \<rparr>"

definition summary_packet :: "InventorySummaryReason \<Rightarrow> 8 word \<Rightarrow> 32 word \<Rightarrow> EventFifoPacket" where
  "summary_packet r q t =
     \<lparr> packet_type = InventoryRoundSummary
         \<lparr> reason_irs = r, final_q = q, min_q_count_irs = 3,
           queries_since_valid_epc_count_irs = 4 \<rparr>,
       us_counter = t \<rparr>"

definition start_session :: "Ex10Env \<Rightarrow> StopConditions \<Rightarrow> bool \<Rightarrow> Ex10ReaderPrivate" where
  "start_session env sc dt =
     snd (continuous_inventory env 1 103 3000 (Some example_config) (Some example_config_2)
            False (Some sc) dt False reader)"

definition rounds_7 :: StopConditions where
  "rounds_7 = \<lparr>max_number_of_rounds = 7, max_number_of_tags = 0, max_duration_us = 0\<rparr>"

definition duration_2s :: StopConditions where
  "duration_2s = \<lparr>max_number_of_rounds = 0, max_number_of_tags = 0, max_duration_us = 2000000\<rparr>"

definition no_stop_conditions :: StopConditions where
  "no_stop_conditions = \<lparr>max_number_of_rounds = 0, max_number_of_tags = 0, max_duration_us = 0\<rparr>"

definition rounds_1_duration_2s :: StopConditions where
  "rounds_1_duration_2s =
     \<lparr>max_number_of_rounds = 1, max_number_of_tags = 0, max_duration_us = 2000000\<rparr>"

definition done_summary :: InventoryRoundSummaryFields where
  "done_summary =
     \<lparr> reason_irs = InventorySummaryDone, final_q = 2, min_q_count_irs = 3,
       queries_since_valid_epc_count_irs = 4 \<rparr>"

section \<open>Properties of the memory helpers\<close>










section \<open>Properties of the regulatory channel timers\<close>

lemma etsi_lower_initial_wf: "etsi_lower_wf etsi_lower_initial"
  by (simp add: etsi_lower_wf_def etsi_lower_initial_def)

lemma regulatory_timer_set_start_wf:
  "etsi_lower_wf st \<Longrightarrow> regulatory_timer_set_start channel t st = Some st' \<Longrightarrow> etsi_lower_wf st'"
  by (auto simp: etsi_lower_wf_def regulatory_timer_set_start_def Let_def split: if_splits)

lemma regulatory_timer_set_end_wf:
  "etsi_lower_wf st \<Longrightarrow> regulatory_timer_set_end channel t st = Some st' \<Longrightarrow> etsi_lower_wf st'"
  by (auto simp: etsi_lower_wf_def regulatory_timer_set_end_def Let_def split: if_splits)

lemma word32_pred_less: "(x :: 32 word) \<noteq> 0 \<Longrightarrow> x - 1 < x"
  by (simp add: word_less_nat_alt unat_minus_one unat_gt_0)

lemma off_time_gap: "((1040 :: 32 word) + x - 1) - 1040 = x - 1"
  by simp

lemma unat_ucast_16_32: "unat (ucast (x :: 16 word) :: 32 word) = unat x"
  by (simp add: unsigned_ucast_eq take_bit_nat_eq_self_iff)
     (rule less_trans [OF unsigned_less], simp)

lemma ucast_16_32_eq_0: "(ucast (x :: 16 word) :: 32 word) = 0 \<longleftrightarrow> x = 0"
  using unat_ucast_16_32 [of x] by (metis unat_eq_0)

lemma regulatory_timer_set_start_eq:
  "channel < ETSI_UPPER_CHANNELS \<Longrightarrow>
   regulatory_timer_set_start channel now_ms st =
     Some (st\<lparr>channel_last_start := (channel_last_start st)[channel := now_ms],
              channel_total_time := (channel_total_time st)[channel :=
                (if now_ms - channel_last_end st ! channel
                      < ucast (off_same_channel_ms (regulatory_timers (region_ptr st)))
                 then channel_total_time st ! channel + (now_ms - channel_last_end st ! channel)
                 else 0)]\<rparr>)"
  by (simp add: regulatory_timer_set_start_def Let_def)

lemma regulatory_timer_set_end_eq:
  "channel < ETSI_UPPER_CHANNELS \<Longrightarrow>
   regulatory_timer_set_end channel now_ms st =
     Some (st\<lparr>channel_last_end := (channel_last_end st)[channel := now_ms],
              channel_total_time := (channel_total_time st)[channel :=
                channel_total_time st ! channel + (now_ms - channel_last_start st ! channel)]\<rparr>)"
  by (simp add: regulatory_timer_set_end_def Let_def)

lemma regulatory_timer_scenario:
  assumes wf: "etsi_lower_wf st" and ch: "channel < ETSI_UPPER_CHANNELS"
    and off: "off_same_channel_ms (regulatory_timers (region_ptr st)) \<noteq> 0"
  shows "\<exists>s1 s2 s3.
            regulatory_timer_set_start channel 1000 st = Some s1 \<and>
            regulatory_timer_set_end channel 1040 s1 = Some s2 \<and>
            regulatory_timer_set_start channel
              (1040 + ucast (off_same_channel_ms (regulatory_timers (region_ptr st))) - 1) s2 = Some s3 \<and>
            channel_total_time s2 ! channel = channel_total_time s1 ! channel + 40 \<and>
            channel_total_time s3 ! channel =
              channel_total_time s2 ! channel
                + (ucast (off_same_channel_ms (regulatory_timers (region_ptr st))) - 1)"
proof -
  note start = regulatory_timer_set_start_eq [OF ch]
  note stop = regulatory_timer_set_end_eq [OF ch]
  define off32 :: "32 word" where
    "off32 = ucast (off_same_channel_ms (regulatory_timers (region_ptr st)))"
  have off32: "off32 \<noteq> 0"
    using off unfolding off32_def by (simp add: ucast_16_32_eq_0)
  have lt: "off32 - 1 < off32"
    using off32 by (rule word32_pred_less)
  obtain s1 where s1: "regulatory_timer_set_start channel 1000 st = Some s1"
    using start by blast
  have wf1: "etsi_lower_wf s1"
    using wf s1 by (rule regulatory_timer_set_start_wf)
  have r1: "region_ptr s1 = region_ptr st"
    using s1 by (auto simp: start)
  have ls1: "channel_last_start s1 ! channel = 1000"
    using s1 wf ch by (auto simp: start etsi_lower_wf_def)
  obtain s2 where s2: "regulatory_timer_set_end channel 1040 s1 = Some s2"
    using stop by blast
  have wf2: "etsi_lower_wf s2"
    using wf1 s2 by (rule regulatory_timer_set_end_wf)
  have r2: "region_ptr s2 = region_ptr st"
    using s2 r1 by (auto simp: stop)
  have le2: "channel_last_end s2 ! channel = 1040"
    using s2 wf1 ch by (auto simp: stop etsi_lower_wf_def)
  have t2: "channel_total_time s2 ! channel = channel_total_time s1 ! channel + 40"
    using s2 wf1 ch ls1 by (auto simp: stop etsi_lower_wf_def)
  obtain s3 where s3: "regulatory_timer_set_start channel (1040 + off32 - 1) s2 = Some s3"
    using start by blast
  have t3: "channel_total_time s3 ! channel = channel_total_time s2 ! channel + (off32 - 1)"
    using s3 wf2 ch le2 r2 lt
    by (auto simp: start etsi_lower_wf_def off32_def [symmetric] off_time_gap)
  show ?thesis
    using s1 s2 s3 t2 t3 unfolding off32_def by blast
qed

text \<open>
  Claim C8. For every channel of the timer arrays, \<open>regulatory_timer_set_start\<close> records
  the start time and, when the time since the last end is strictly below the region's
  same-channel off time, adds that gap to the accumulated on-time, otherwise resets the
  accumulated on-time to zero; \<open>regulatory_timer_set_end\<close> records the end time and adds
  the time since the last start. With a non-zero off time, start at 1000, end at 1040 and
  a second start at \<open>1040 + off - 1\<close> leaves the accumulated on-time at its value after
  the end plus the whole gap \<open>off - 1\<close>.
\<close>

theorem regulatory_timer_start_end:
  assumes wf: "etsi_lower_wf st" and ch: "channel < ETSI_UPPER_CHANNELS"
  shows "regulatory_timer_set_start channel now_ms st =
           Some (st\<lparr>channel_last_start := (channel_last_start st)[channel := now_ms],
                    channel_total_time := (channel_total_time st)[channel :=
                      (if now_ms - channel_last_end st ! channel
                            < ucast (off_same_channel_ms (regulatory_timers (region_ptr st)))
                       then channel_total_time st ! channel + (now_ms - channel_last_end st ! channel)
                       else 0)]\<rparr>)
       \<and> regulatory_timer_set_end channel now_ms st =
           Some (st\<lparr>channel_last_end := (channel_last_end st)[channel := now_ms],
                    channel_total_time := (channel_total_time st)[channel :=
                      channel_total_time st ! channel + (now_ms - channel_last_start st ! channel)]\<rparr>)
       \<and> (off_same_channel_ms (regulatory_timers (region_ptr st)) \<noteq> 0 \<longrightarrow>
           (\<exists>s1 s2 s3.
              regulatory_timer_set_start channel 1000 st = Some s1 \<and>
              regulatory_timer_set_end channel 1040 s1 = Some s2 \<and>
              regulatory_timer_set_start channel
                (1040 + ucast (off_same_channel_ms (regulatory_timers (region_ptr st))) - 1) s2 = Some s3 \<and>
              channel_total_time s2 ! channel = channel_total_time s1 ! channel + 40 \<and>
              channel_total_time s3 ! channel =
                channel_total_time s2 ! channel
                  + (ucast (off_same_channel_ms (regulatory_timers (region_ptr st))) - 1)))"
  using regulatory_timer_set_start_eq [OF ch] regulatory_timer_set_end_eq [OF ch]
    regulatory_timer_scenario [OF wf ch]
  by blast

theorem regulatory_timer_start_end_witness:
  "etsi_lower_wf etsi_lower_initial \<and> (0::nat) < ETSI_UPPER_CHANNELS \<and>
   off_same_channel_ms (regulatory_timers (region_ptr etsi_lower_initial)) \<noteq> 0 \<and>
   (\<exists>s1 s2 s3.
      regulatory_timer_set_start 0 1000 etsi_lower_initial = Some s1 \<and>
      regulatory_timer_set_end 0 1040 s1 = Some s2 \<and>
      regulatory_timer_set_start 0 1139 s2 = Some s3 \<and>
      channel_total_time s1 ! 0 = 0 \<and>
      channel_total_time s2 ! 0 = 40 \<and>
      channel_total_time s3 ! 0 = 139)"
proof -
  have ch: "(0::nat) < ETSI_UPPER_CHANNELS"
    by (simp add: ETSI_UPPER_CHANNELS_def)
  have off: "off_same_channel_ms (regulatory_timers (region_ptr etsi_lower_initial)) = 100"
    by (simp add: etsi_lower_initial_def region_def)
  note main = regulatory_timer_start_end [OF etsi_lower_initial_wf ch]
  from main [of 0] off obtain s1 s2 s3 where
    s1: "regulatory_timer_set_start 0 1000 etsi_lower_initial = Some s1" and
    s2: "regulatory_timer_set_end 0 1040 s1 = Some s2" and
    s3: "regulatory_timer_set_start 0 1139 s2 = Some s3" and
    t2: "channel_total_time s2 ! 0 = channel_total_time s1 ! 0 + 40" and
    t3: "channel_total_time s3 ! 0 = channel_total_time s2 ! 0 + 99"
    by auto
  have t1: "channel_total_time s1 ! 0 = 0"
    using s1 main [of 1000]
    by (auto simp: etsi_lower_initial_def region_def ETSI_UPPER_CHANNELS_def)
  have "channel_total_time s2 ! 0 = 40" "channel_total_time s3 ! 0 = 139"
    using t1 t2 t3 by simp_all
  with s1 s2 s3 t1 ch off etsi_lower_initial_wf show ?thesis
    by auto
qed

section \<open>Properties of the reader\<close>

subsection \<open>What the calls to the collaborators leave unchanged\<close>

lemma call_result_simps [simp]:
  "fst (call_result env c w) = device_result env (calls w @ [c])"
  "inventory_state (snd (call_result env c w)) = inventory_state w"
  "inventory_params (snd (call_result env c w)) = inventory_params w"
  "calls (snd (call_result env c w)) = calls w @ [c]"
  by (simp_all add: call_result_def)

lemma call_bool_simps [simp]:
  "fst (call_bool f c w) = f (calls w @ [c])"
  "inventory_state (snd (call_bool f c w)) = inventory_state w"
  "inventory_params (snd (call_bool f c w)) = inventory_params w"
  "calls (snd (call_bool f c w)) = calls w @ [c]"
  by (simp_all add: call_bool_def)

lemma call_void_simps [simp]:
  "inventory_state (call_void c w) = inventory_state w"
  "inventory_params (call_void c w) = inventory_params w"
  "calls (call_void c w) = calls w @ [c]"
  by (simp_all add: call_void_def)

lemma make_ex10_success_no_error [simp]: "\<not> error make_ex10_success"
  by (simp add: make_ex10_success_def)

lemma make_ex10_sdk_error_simps [simp]:
  "error (make_ex10_sdk_error m c)"
  "module (make_ex10_sdk_error m c) = m"
  "result_code (make_ex10_sdk_error m c) = sdk c"
  by (simp_all add: make_ex10_sdk_error_def)

lemma run_inventory_calls_simps [simp]:
  "run_inventory_calls [] = []"
  "run_inventory_calls (c # tr) =
     (if is_run_inventory c then c # run_inventory_calls tr else run_inventory_calls tr)"
  "run_inventory_calls (tr @ tr') = run_inventory_calls tr @ run_inventory_calls tr'"
  by (simp_all add: run_inventory_calls_def)

lemma build_cw_configs_frame [simp]:
  "inventory_state (snd (build_cw_configs env a m p f ro w)) = inventory_state w"
  "inventory_params (snd (build_cw_configs env a m p f ro w)) = inventory_params w"
  "run_inventory_calls (calls (snd (build_cw_configs env a m p f ro w))) = run_inventory_calls (calls w)"
  by (simp_all add: build_cw_configs_def Let_def split_beta)

lemma reader_ramp_for_inventory_frame [simp]:
  "inventory_state (snd (reader_ramp_for_inventory env a m p ro w)) = inventory_state w"
  "inventory_params (snd (reader_ramp_for_inventory env a m p ro w)) = inventory_params w"
  "run_inventory_calls (calls (snd (reader_ramp_for_inventory env a m p ro w))) = run_inventory_calls (calls w)"
  by (simp_all add: reader_ramp_for_inventory_def Let_def split_beta)

lemma env_ok_simps:
  "get_device_time env_ok tr = 0"
  "is_op_currently_running env_ok tr = False"
  "get_cw_is_on env_ok tr = False"
  "result_node_allocated env_ok tr = False"
  "device_result env_ok tr = make_ex10_success"
  "ex10_result_to_continuous_inventory_error env_ok = sr_of_result"
  by (simp_all add: env_ok_def)

subsection \<open>Starting a round\<close>

lemma run_inventory_retry_frame [simp]:
  "inventory_state (snd (run_inventory_retry env a m p cfg cfg2 sel ro w)) = inventory_state w"
  "inventory_params (snd (run_inventory_retry env a m p cfg cfg2 sel ro w)) = inventory_params w"
  by (simp_all add: run_inventory_retry_def Let_def split_beta)

lemma run_inventory_retry_rounds:
  "run_inventory_calls (calls (snd (run_inventory_retry env a m p cfg cfg2 sel ro w))) =
     run_inventory_calls (calls w) @
       (if select_race (fst (call_result env (RunInventory cfg cfg2 sel) w)) \<and>
           \<not> error (fst (reader_ramp_for_inventory env a m p ro
                            (snd (call_result env (RunInventory cfg cfg2 sel) w))))
        then [RunInventory cfg cfg2 sel, RunInventory cfg cfg2 sel]
        else [RunInventory cfg cfg2 sel])"
  by (simp add: run_inventory_retry_def Let_def split_beta)

lemma start_inventory_state:
  "inventory_state (snd (start_inventory env a m p cfg cfg2 sel ro w)) =
     (if is_op_currently_running env (calls w @ [IsOpCurrentlyRunning])
      then inventory_state w
      else (inventory_state w)\<lparr>target := target_cfg cfg\<rparr>)"
  by (simp add: start_inventory_def Let_def split_beta)

lemma start_inventory_params:
  "inventory_params (snd (start_inventory env a m p cfg cfg2 sel ro w)) =
     (if is_op_currently_running env (calls w @ [IsOpCurrentlyRunning])
      then inventory_params w
      else (inventory_params w)\<lparr>antenna := a, rf_mode := m\<rparr>)"
  by (simp add: start_inventory_def Let_def split_beta)

lemma rounds_cases:
  "tr = [] \<or> tr = [R] \<or> tr = [R, R] \<Longrightarrow> \<exists>n\<le>2. base @ tr = base @ replicate n R"
proof (elim disjE)
  assume "tr = []"
  then show ?thesis by (intro exI [of _ 0]) simp
next
  assume "tr = [R]"
  then show ?thesis by (intro exI [of _ 1]) simp
next
  assume "tr = [R, R]"
  then show ?thesis by (intro exI [of _ 2]) (simp add: numeral_2_eq_2)
qed

lemma start_inventory_rounds_tr:
  "\<exists>tr. run_inventory_calls (calls (snd (start_inventory env a m p cfg cfg2 sel ro w))) =
           run_inventory_calls (calls w) @ tr \<and>
        (tr = [] \<or> tr = [RunInventory cfg cfg2 sel] \<or>
         tr = [RunInventory cfg cfg2 sel, RunInventory cfg cfg2 sel])"
  by (simp add: start_inventory_def Let_def split_beta run_inventory_retry_rounds)

lemma start_inventory_rounds:
  "\<exists>n\<le>2. run_inventory_calls (calls (snd (start_inventory env a m p cfg cfg2 sel ro w))) =
            run_inventory_calls (calls w) @ replicate n (RunInventory cfg cfg2 sel)"
proof -
  obtain tr where
    eq: "run_inventory_calls (calls (snd (start_inventory env a m p cfg cfg2 sel ro w))) =
           run_inventory_calls (calls w) @ tr" and
    tr: "tr = [] \<or> tr = [RunInventory cfg cfg2 sel] \<or>
         tr = [RunInventory cfg cfg2 sel, RunInventory cfg cfg2 sel]"
    using start_inventory_rounds_tr by blast
  show ?thesis
    unfolding eq using tr by (rule rounds_cases)
qed

text \<open>
  Claim C10. If the protocol reports a running op when \<open>start_inventory\<close> is entered, it
  returns success having made no call but that query, and so does \<open>inventory\<close>;
  \<open>continuous_inventory\<close> then returns success and leaves the state \<open>InvOngoing\<close>
  although no round was issued.
\<close>

theorem start_inventory_op_running:
  "(is_op_currently_running env (calls w @ [IsOpCurrentlyRunning]) \<longrightarrow>
      start_inventory env a m p cfg cfg2 sel ro w =
        (make_ex10_success, w\<lparr>calls := calls w @ [IsOpCurrentlyRunning]\<rparr>) \<and>
      inventory env a m p cfg cfg2 sel ro w =
        (make_ex10_success, w\<lparr>calls := calls w @ [IsOpCurrentlyRunning]\<rparr>)) \<and>
   (is_op_currently_running env (calls w @ [GetDeviceTime, IsOpCurrentlyRunning]) \<longrightarrow>
      fst (continuous_inventory env a m p (Some cfg) (Some cfg2) sel (Some sc) dt ro w) =
        make_ex10_success \<and>
      state (inventory_state
        (snd (continuous_inventory env a m p (Some cfg) (Some cfg2) sel (Some sc) dt ro w))) =
        InvOngoing \<and>
      calls (snd (continuous_inventory env a m p (Some cfg) (Some cfg2) sel (Some sc) dt ro w)) =
        calls w @ [GetDeviceTime, IsOpCurrentlyRunning])"
  by (simp add: start_inventory_def inventory_def continuous_inventory_def call_bool_def
        call_void_def Let_def)

theorem start_inventory_op_running_witness:
  "is_op_currently_running env_op_running (calls reader @ [IsOpCurrentlyRunning]) \<and>
   is_op_currently_running env_op_running (calls reader @ [GetDeviceTime, IsOpCurrentlyRunning]) \<and>
   fst (start_inventory env_op_running 1 103 3000 example_config example_config_2 False False
          reader) = make_ex10_success \<and>
   fst (continuous_inventory env_op_running 1 103 3000 (Some example_config)
          (Some example_config_2) False
          (Some \<lparr>max_number_of_rounds = 7, max_number_of_tags = 0, max_duration_us = 0\<rparr>)
          False False reader) = make_ex10_success \<and>
   state (inventory_state (snd (continuous_inventory env_op_running 1 103 3000
          (Some example_config) (Some example_config_2) False
          (Some \<lparr>max_number_of_rounds = 7, max_number_of_tags = 0, max_duration_us = 0\<rparr>)
          False False reader))) = InvOngoing \<and>
   calls (snd (continuous_inventory env_op_running 1 103 3000
          (Some example_config) (Some example_config_2) False
          (Some \<lparr>max_number_of_rounds = 7, max_number_of_tags = 0, max_duration_us = 0\<rparr>)
          False False reader)) = [GetDeviceTime, IsOpCurrentlyRunning]"
  using start_inventory_op_running [of env_op_running reader 1 103 3000 example_config
          example_config_2 False False
          "\<lparr>max_number_of_rounds = 7, max_number_of_tags = 0, max_duration_us = 0\<rparr>" False]
  by (simp add: env_op_running_def env_ok_def reader_def)

lemma reader_ramp_for_inventory_eq:
  "reader_ramp_for_inventory env a m p ro v =
     (let h1 = calls v @ [UpdateChannelTimeTracking];
          h2 = h1 @ [GetCwIsOn];
          h3 = (if get_cw_is_on env h2 then h2 else h2 @ [MeasureAndReadAdcTemperature]);
          h5 = h3 @ [RfPowerBuildCwConfigs a m p, CwOn ro];
          h6 = h5 @ [WaitOpCompletion];
          h7 = h6 @ [ReadRxGainControlReg]
      in if error (device_result env h1) then (device_result env h1, v\<lparr>calls := h1\<rparr>)
         else if \<not> get_cw_is_on env h2 \<and> error (device_result env h3)
           then (device_result env h3, v\<lparr>calls := h3\<rparr>)
         else if error (device_result env h5) then (device_result env h5, v\<lparr>calls := h5\<rparr>)
         else if error (device_result env h6) then (device_result env h6, v\<lparr>calls := h6\<rparr>)
         else (device_result env h7, v\<lparr>calls := h7\<rparr>))"
  by (simp add: reader_ramp_for_inventory_def build_cw_configs_def call_result_def
        call_bool_def call_void_def Let_def)


text \<open>
  Claim C7. Let \<open>start_inventory\<close> reach its first \<open>run_inventory\<close>: no op is running,
  \<open>set_rf_mode\<close> succeeds, and the carrier is on or the ramp succeeds. If that first
  attempt does not fail with the invalid transmitter state on the select op, its result
  is returned. If it does, \<open>reader_ramp_for_inventory\<close> is run again; when the ramp
  fails, its error is returned and no further round is issued; when it succeeds,
  \<open>run_inventory\<close> is called a second time with the same configuration and whatever it
  returns, error or not, is returned with no further call. The first error is never the
  value returned for that attempt. The ramp itself updates the channel time tracking,
  builds the configuration (measuring the temperature when the carrier is off), turns
  the carrier on, waits for the op and reads the gain register, stopping at the first
  error. In all, \<open>start_inventory\<close> issues at most two rounds.
\<close>

theorem start_inventory_retries_once:
  assumes not_running: "\<not> is_op_currently_running env (calls w @ [IsOpCurrentlyRunning])"
    and rf_ok: "\<not> error (device_result env (calls w @ [IsOpCurrentlyRunning, SetRfMode m]))"
    and w5: "w5 = w\<lparr>inventory_state := (inventory_state w)\<lparr>target := target_cfg cfg\<rparr>,
                    inventory_params := (inventory_params w)\<lparr>antenna := a, rf_mode := m\<rparr>,
                    calls := calls w @ [IsOpCurrentlyRunning, SetRfMode m, GetCwIsOn]\<rparr>"
    and ramp_ok: "get_cw_is_on env (calls w5) \<or>
                  \<not> error (fst (reader_ramp_for_inventory env a m p ro w5))"
    and w6: "w6 = (if get_cw_is_on env (calls w5) then w5
                   else snd (reader_ramp_for_inventory env a m p ro w5))"
    and w7: "w7 = w6\<lparr>calls := calls w6 @ [RunInventory cfg cfg2 sel]\<rparr>"
    and r1: "r1 = device_result env (calls w7)"
    and race: "race \<longleftrightarrow> error r1 \<and> op_id (ops_status r1) = SendSelectOp \<and>
                      error_ops (ops_status r1) = ErrorInvalidTxState"
  shows
    "(\<not> race \<longrightarrow> start_inventory env a m p cfg cfg2 sel ro w = (r1, w7)) \<and>
     (race \<and> error (fst (reader_ramp_for_inventory env a m p ro w7)) \<longrightarrow>
        start_inventory env a m p cfg cfg2 sel ro w = reader_ramp_for_inventory env a m p ro w7) \<and>
     (race \<and> \<not> error (fst (reader_ramp_for_inventory env a m p ro w7)) \<longrightarrow>
        start_inventory env a m p cfg cfg2 sel ro w =
          (device_result env
             (calls (snd (reader_ramp_for_inventory env a m p ro w7)) @
              [RunInventory cfg cfg2 sel]),
           (snd (reader_ramp_for_inventory env a m p ro w7))
             \<lparr>calls := calls (snd (reader_ramp_for_inventory env a m p ro w7)) @
                        [RunInventory cfg cfg2 sel]\<rparr>)) \<and>
     reader_ramp_for_inventory env a m p ro v =
       (let h1 = calls v @ [UpdateChannelTimeTracking];
            h2 = h1 @ [GetCwIsOn];
            h3 = (if get_cw_is_on env h2 then h2 else h2 @ [MeasureAndReadAdcTemperature]);
            h5 = h3 @ [RfPowerBuildCwConfigs a m p, CwOn ro];
            h6 = h5 @ [WaitOpCompletion];
            h7 = h6 @ [ReadRxGainControlReg]
        in if error (device_result env h1) then (device_result env h1, v\<lparr>calls := h1\<rparr>)
           else if \<not> get_cw_is_on env h2 \<and> error (device_result env h3)
             then (device_result env h3, v\<lparr>calls := h3\<rparr>)
           else if error (device_result env h5) then (device_result env h5, v\<lparr>calls := h5\<rparr>)
           else if error (device_result env h6) then (device_result env h6, v\<lparr>calls := h6\<rparr>)
           else (device_result env h7, v\<lparr>calls := h7\<rparr>)) \<and>
     (\<exists>n\<le>2. run_inventory_calls (calls (snd (start_inventory env a m p cfg cfg2 sel ro w))) =
               run_inventory_calls (calls w) @ replicate n (RunInventory cfg cfg2 sel))"
proof -
  have reach: "start_inventory env a m p cfg cfg2 sel ro w =
               run_inventory_retry env a m p cfg cfg2 sel ro w6"
    using not_running rf_ok ramp_ok
    unfolding w6 w5
    by (auto simp: start_inventory_def call_bool_def call_result_def Let_def split_beta)
  have first: "call_result env (RunInventory cfg cfg2 sel) w6 = (r1, w7)"
    by (simp add: call_result_def r1 w7)
  have sr: "select_race r1 = race"
    by (simp add: select_race_def race)
  have a: "\<not> race \<longrightarrow> start_inventory env a m p cfg cfg2 sel ro w = (r1, w7)"
    by (simp add: reach run_inventory_retry_def first sr)
  have b: "race \<and> error (fst (reader_ramp_for_inventory env a m p ro w7)) \<longrightarrow>
        start_inventory env a m p cfg cfg2 sel ro w = reader_ramp_for_inventory env a m p ro w7"
    by (simp add: reach run_inventory_retry_def first sr split_beta)
  have c: "race \<and> \<not> error (fst (reader_ramp_for_inventory env a m p ro w7)) \<longrightarrow>
        start_inventory env a m p cfg cfg2 sel ro w =
          (device_result env
             (calls (snd (reader_ramp_for_inventory env a m p ro w7)) @
              [RunInventory cfg cfg2 sel]),
           (snd (reader_ramp_for_inventory env a m p ro w7))
             \<lparr>calls := calls (snd (reader_ramp_for_inventory env a m p ro w7)) @
                        [RunInventory cfg cfg2 sel]\<rparr>)"
    unfolding reach run_inventory_retry_def first
    by (simp add: sr split_beta call_result_def)
  show ?thesis
    using a b c reader_ramp_for_inventory_eq [of env a m p ro v]
      start_inventory_rounds [of env a m p cfg cfg2 sel ro w]
    by blast
qed


lemma env_race_simps:
  "is_op_currently_running env_race tr = False"
  "get_cw_is_on env_race tr = False"
  "device_result env_race tr =
     (if tr \<noteq> [] \<and> is_run_inventory (last tr) \<and> length (run_inventory_calls tr) = 1
      then select_race_result else make_ex10_success)"
  "is_op_currently_running env_race_always tr = False"
  "get_cw_is_on env_race_always tr = False"
  "device_result env_race_always tr =
     (if tr \<noteq> [] \<and> is_run_inventory (last tr) then select_race_result else make_ex10_success)"
  "is_op_currently_running env_reramp_fails tr = False"
  "get_cw_is_on env_reramp_fails tr = False"
  "device_result env_reramp_fails tr =
     (if tr \<noteq> [] \<and> is_run_inventory (last tr) then select_race_result
      else if run_inventory_calls tr \<noteq> [] \<and> tr \<noteq> [] \<and> last tr = CwOn False
      then op_error_result else make_ex10_success)"
  by (simp_all add: env_race_def env_race_always_def env_reramp_fails_def env_ok_def)

lemma race_results [simp]:
  "error select_race_result" "op_id (ops_status select_race_result) = SendSelectOp"
  "error_ops (ops_status select_race_result) = ErrorInvalidTxState"
  "error op_error_result"
  by (simp_all add: select_race_result_def op_error_result_def)

theorem start_inventory_retries_once_witness:
  "\<not> is_op_currently_running env_race (calls reader @ [IsOpCurrentlyRunning]) \<and>
   \<not> error (device_result env_race (calls reader @ [IsOpCurrentlyRunning, SetRfMode 103])) \<and>
   start_inventory env_race 1 103 3000 example_config example_config_2 False False reader =
     (make_ex10_success,
      reader\<lparr>inventory_state := (inventory_state reader)\<lparr>target := 0\<rparr>,
             inventory_params := (inventory_params reader)\<lparr>antenna := 1, rf_mode := 103\<rparr>,
             calls := [IsOpCurrentlyRunning, SetRfMode 103, GetCwIsOn, UpdateChannelTimeTracking,
                       GetCwIsOn, MeasureAndReadAdcTemperature, RfPowerBuildCwConfigs 1 103 3000,
                       CwOn False, WaitOpCompletion, ReadRxGainControlReg,
                       RunInventory example_config example_config_2 False,
                       UpdateChannelTimeTracking, GetCwIsOn, MeasureAndReadAdcTemperature,
                       RfPowerBuildCwConfigs 1 103 3000, CwOn False, WaitOpCompletion,
                       ReadRxGainControlReg,
                       RunInventory example_config example_config_2 False]\<rparr>) \<and>
   start_inventory env_race_always 1 103 3000 example_config example_config_2 False False reader =
     (select_race_result,
      reader\<lparr>inventory_state := (inventory_state reader)\<lparr>target := 0\<rparr>,
             inventory_params := (inventory_params reader)\<lparr>antenna := 1, rf_mode := 103\<rparr>,
             calls := [IsOpCurrentlyRunning, SetRfMode 103, GetCwIsOn, UpdateChannelTimeTracking,
                       GetCwIsOn, MeasureAndReadAdcTemperature, RfPowerBuildCwConfigs 1 103 3000,
                       CwOn False, WaitOpCompletion, ReadRxGainControlReg,
                       RunInventory example_config example_config_2 False,
                       UpdateChannelTimeTracking, GetCwIsOn, MeasureAndReadAdcTemperature,
                       RfPowerBuildCwConfigs 1 103 3000, CwOn False, WaitOpCompletion,
                       ReadRxGainControlReg,
                       RunInventory example_config example_config_2 False]\<rparr>) \<and>
   start_inventory env_reramp_fails 1 103 3000 example_config example_config_2 False False reader =
     (op_error_result,
      reader\<lparr>inventory_state := (inventory_state reader)\<lparr>target := 0\<rparr>,
             inventory_params := (inventory_params reader)\<lparr>antenna := 1, rf_mode := 103\<rparr>,
             calls := [IsOpCurrentlyRunning, SetRfMode 103, GetCwIsOn, UpdateChannelTimeTracking,
                       GetCwIsOn, MeasureAndReadAdcTemperature, RfPowerBuildCwConfigs 1 103 3000,
                       CwOn False, WaitOpCompletion, ReadRxGainControlReg,
                       RunInventory example_config example_config_2 False,
                       UpdateChannelTimeTracking, GetCwIsOn, MeasureAndReadAdcTemperature,
                       RfPowerBuildCwConfigs 1 103 3000, CwOn False]\<rparr>) \<and>
   start_inventory env_ok 1 103 3000 example_config example_config_2 False False reader =
     (make_ex10_success,
      reader\<lparr>inventory_state := (inventory_state reader)\<lparr>target := 0\<rparr>,
             inventory_params := (inventory_params reader)\<lparr>antenna := 1, rf_mode := 103\<rparr>,
             calls := [IsOpCurrentlyRunning, SetRfMode 103, GetCwIsOn, UpdateChannelTimeTracking,
                       GetCwIsOn, MeasureAndReadAdcTemperature, RfPowerBuildCwConfigs 1 103 3000,
                       CwOn False, WaitOpCompletion, ReadRxGainControlReg,
                       RunInventory example_config example_config_2 False]\<rparr>)"
proof -
  let ?R = "RunInventory example_config example_config_2 False"
  let ?w5 = "reader\<lparr>inventory_state := (inventory_state reader)\<lparr>target := target_cfg example_config\<rparr>,
                    inventory_params := (inventory_params reader)\<lparr>antenna := 1, rf_mode := 103\<rparr>,
                    calls := calls reader @ [IsOpCurrentlyRunning, SetRfMode 103, GetCwIsOn]\<rparr>"
  let ?h = "[IsOpCurrentlyRunning, SetRfMode 103, GetCwIsOn, UpdateChannelTimeTracking,
             GetCwIsOn, MeasureAndReadAdcTemperature, RfPowerBuildCwConfigs 1 103 3000,
             CwOn False, WaitOpCompletion, ReadRxGainControlReg]"
  have nr: "\<not> is_op_currently_running env_race (calls reader @ [IsOpCurrentlyRunning])"
    and rf: "\<not> error (device_result env_race
                        (calls reader @ [IsOpCurrentlyRunning, SetRfMode 103]))"
    by (simp_all add: env_race_simps)
  have once: "start_inventory env_race 1 103 3000 example_config example_config_2 False False reader =
     (make_ex10_success,
      reader\<lparr>inventory_state := (inventory_state reader)\<lparr>target := 0\<rparr>,
             inventory_params := (inventory_params reader)\<lparr>antenna := 1, rf_mode := 103\<rparr>,
             calls := ?h @ [?R, UpdateChannelTimeTracking, GetCwIsOn, MeasureAndReadAdcTemperature,
                            RfPowerBuildCwConfigs 1 103 3000, CwOn False, WaitOpCompletion,
                            ReadRxGainControlReg, ?R]\<rparr>)"
  proof -
    have ramp5: "reader_ramp_for_inventory env_race 1 103 3000 False ?w5 =
                 (make_ex10_success, ?w5\<lparr>calls := ?h\<rparr>)"
      by (simp add: reader_ramp_for_inventory_eq env_race_simps reader_def Let_def)
    have rampok: "get_cw_is_on env_race (calls ?w5) \<or>
                  \<not> error (fst (reader_ramp_for_inventory env_race 1 103 3000 False ?w5))"
      unfolding ramp5 by simp
    note main = start_inventory_retries_once [OF nr rf refl rampok refl refl refl refl]
    show ?thesis
      using main [unfolded ramp5]
      by (simp add: reader_ramp_for_inventory_eq env_race_simps Let_def reader_def
            example_config_def)
  qed
  have again: "start_inventory env_race_always 1 103 3000 example_config example_config_2 False
                 False reader =
     (select_race_result,
      reader\<lparr>inventory_state := (inventory_state reader)\<lparr>target := 0\<rparr>,
             inventory_params := (inventory_params reader)\<lparr>antenna := 1, rf_mode := 103\<rparr>,
             calls := ?h @ [?R, UpdateChannelTimeTracking, GetCwIsOn, MeasureAndReadAdcTemperature,
                            RfPowerBuildCwConfigs 1 103 3000, CwOn False, WaitOpCompletion,
                            ReadRxGainControlReg, ?R]\<rparr>)"
  proof -
    have nr': "\<not> is_op_currently_running env_race_always (calls reader @ [IsOpCurrentlyRunning])"
      and rf': "\<not> error (device_result env_race_always
                          (calls reader @ [IsOpCurrentlyRunning, SetRfMode 103]))"
      by (simp_all add: env_race_simps)
    have ramp5: "reader_ramp_for_inventory env_race_always 1 103 3000 False ?w5 =
                 (make_ex10_success, ?w5\<lparr>calls := ?h\<rparr>)"
      by (simp add: reader_ramp_for_inventory_eq env_race_simps reader_def Let_def)
    have rampok: "get_cw_is_on env_race_always (calls ?w5) \<or>
                  \<not> error (fst (reader_ramp_for_inventory env_race_always 1 103 3000 False ?w5))"
      unfolding ramp5 by simp
    note main = start_inventory_retries_once [OF nr' rf' refl rampok refl refl refl refl]
    show ?thesis
      using main [unfolded ramp5]
      by (simp add: reader_ramp_for_inventory_eq env_race_simps Let_def reader_def
            example_config_def)
  qed
  have reramp: "start_inventory env_reramp_fails 1 103 3000 example_config example_config_2 False
                  False reader =
     (op_error_result,
      reader\<lparr>inventory_state := (inventory_state reader)\<lparr>target := 0\<rparr>,
             inventory_params := (inventory_params reader)\<lparr>antenna := 1, rf_mode := 103\<rparr>,
             calls := ?h @ [?R, UpdateChannelTimeTracking, GetCwIsOn, MeasureAndReadAdcTemperature,
                            RfPowerBuildCwConfigs 1 103 3000, CwOn False]\<rparr>)"
  proof -
    have nr': "\<not> is_op_currently_running env_reramp_fails (calls reader @ [IsOpCurrentlyRunning])"
      and rf': "\<not> error (device_result env_reramp_fails
                          (calls reader @ [IsOpCurrentlyRunning, SetRfMode 103]))"
      by (simp_all add: env_race_simps)
    have ramp5: "reader_ramp_for_inventory env_reramp_fails 1 103 3000 False ?w5 =
                 (make_ex10_success, ?w5\<lparr>calls := ?h\<rparr>)"
      by (simp add: reader_ramp_for_inventory_eq env_race_simps reader_def Let_def)
    have rampok: "get_cw_is_on env_reramp_fails (calls ?w5) \<or>
                  \<not> error (fst (reader_ramp_for_inventory env_reramp_fails 1 103 3000 False ?w5))"
      unfolding ramp5 by simp
    note main = start_inventory_retries_once [OF nr' rf' refl rampok refl refl refl refl]
    show ?thesis
      using main [unfolded ramp5]
      by (simp add: reader_ramp_for_inventory_eq env_race_simps Let_def reader_def
            example_config_def)
  qed
  have plain: "start_inventory env_ok 1 103 3000 example_config example_config_2 False False reader =
     (make_ex10_success,
      reader\<lparr>inventory_state := (inventory_state reader)\<lparr>target := 0\<rparr>,
             inventory_params := (inventory_params reader)\<lparr>antenna := 1, rf_mode := 103\<rparr>,
             calls := ?h @ [?R]\<rparr>)"
  proof -
    have nr': "\<not> is_op_currently_running env_ok (calls reader @ [IsOpCurrentlyRunning])"
      and rf': "\<not> error (device_result env_ok
                          (calls reader @ [IsOpCurrentlyRunning, SetRfMode 103]))"
      by (simp_all add: env_ok_simps)
    have ramp5: "reader_ramp_for_inventory env_ok 1 103 3000 False ?w5 =
                 (make_ex10_success, ?w5\<lparr>calls := ?h\<rparr>)"
      by (simp add: reader_ramp_for_inventory_eq env_ok_simps reader_def Let_def)
    have rampok: "get_cw_is_on env_ok (calls ?w5) \<or>
                  \<not> error (fst (reader_ramp_for_inventory env_ok 1 103 3000 False ?w5))"
      unfolding ramp5 by simp
    note main = start_inventory_retries_once [OF nr' rf' refl rampok refl refl refl refl]
    show ?thesis
      using main [unfolded ramp5]
      by (simp add: reader_ramp_for_inventory_eq env_ok_simps Let_def reader_def
            example_config_def)
  qed
  show ?thesis
    using nr rf once again reramp plain by simp
qed

subsection \<open>The steps of the packet handler\<close>

lemma push_summary_simps [simp]:
  "inventory_state (push_continuous_inventory_summary_packet env pk r w) = inventory_state w"
  "inventory_params (push_continuous_inventory_summary_packet env pk r w) = inventory_params w"
  "calls (push_continuous_inventory_summary_packet env pk r w) =
     calls w @ [InsertFifoEvent True
                  \<lparr> packet_type = ContinuousInventorySummary (continuous_inventory_summary pk r w),
                    us_counter = us_counter pk \<rparr>]"
  by (simp_all add: push_continuous_inventory_summary_packet_def Let_def)

lemma check_stop_conditions_frame [simp]:
  "inventory_params (snd (check_stop_conditions t w)) = inventory_params w"
  "calls (snd (check_stop_conditions t w)) = calls w"
  "round_count (inventory_state (snd (check_stop_conditions t w))) = round_count (inventory_state w)"
  "tag_count (inventory_state (snd (check_stop_conditions t w))) = tag_count (inventory_state w)"
  "state (inventory_state (snd (check_stop_conditions t w))) = state (inventory_state w)"
  "target (inventory_state (snd (check_stop_conditions t w))) = target (inventory_state w)"
  "done_reason (inventory_state (snd (check_stop_conditions t w))) = done_reason (inventory_state w)"
  "previous_q (inventory_state (snd (check_stop_conditions t w))) = previous_q (inventory_state w)"
  "min_q_count (inventory_state (snd (check_stop_conditions t w))) = min_q_count (inventory_state w)"
  "queries_since_valid_epc_count (inventory_state (snd (check_stop_conditions t w))) =
     queries_since_valid_epc_count (inventory_state w)"
  "initial_inventory_config (inventory_state (snd (check_stop_conditions t w))) =
     initial_inventory_config (inventory_state w)"
  by (simp_all add: check_stop_conditions_def Let_def)

lemma check_stop_conditions_false:
  "\<not> fst (check_stop_conditions t w) \<Longrightarrow> snd (check_stop_conditions t w) = w"
  by (auto simp: check_stop_conditions_def Let_def split: if_splits)

lemma check_stop_conditions_false_reason:
  "\<not> fst (check_stop_conditions t w) \<Longrightarrow> stop_reason (inventory_state w) = SRNone"
  by (auto simp: check_stop_conditions_def Let_def split: if_splits)

lemma continue_reset_q_frame [simp]:
  "inventory_params (snd (continue_reset_q env w)) = inventory_params w"
  "round_count (inventory_state (snd (continue_reset_q env w))) = round_count (inventory_state w)"
  "tag_count (inventory_state (snd (continue_reset_q env w))) = tag_count (inventory_state w)"
  "state (inventory_state (snd (continue_reset_q env w))) = state (inventory_state w)"
  "stop_reason (inventory_state (snd (continue_reset_q env w))) = stop_reason (inventory_state w)"
  "done_reason (inventory_state (snd (continue_reset_q env w))) = done_reason (inventory_state w)"
  "previous_q (inventory_state (snd (continue_reset_q env w))) = previous_q (inventory_state w)"
  "min_q_count (inventory_state (snd (continue_reset_q env w))) = min_q_count (inventory_state w)"
  "queries_since_valid_epc_count (inventory_state (snd (continue_reset_q env w))) =
     queries_since_valid_epc_count (inventory_state w)"
  "initial_inventory_config (inventory_state (snd (continue_reset_q env w))) =
     initial_inventory_config (inventory_state w)"
  "run_inventory_calls (calls (snd (continue_reset_q env w))) = run_inventory_calls (calls w)"
  by (simp_all add: continue_reset_q_def Let_def split_beta)

lemma start_inventory_frame [simp]:
  "round_count (inventory_state (snd (start_inventory env a m p cfg cfg2 sel ro w))) =
     round_count (inventory_state w)"
  "tag_count (inventory_state (snd (start_inventory env a m p cfg cfg2 sel ro w))) =
     tag_count (inventory_state w)"
  "state (inventory_state (snd (start_inventory env a m p cfg cfg2 sel ro w))) =
     state (inventory_state w)"
  "stop_reason (inventory_state (snd (start_inventory env a m p cfg cfg2 sel ro w))) =
     stop_reason (inventory_state w)"
  "stop_conditions (inventory_params (snd (start_inventory env a m p cfg cfg2 sel ro w))) =
     stop_conditions (inventory_params w)"
  "start_time_us (inventory_params (snd (start_inventory env a m p cfg cfg2 sel ro w))) =
     start_time_us (inventory_params w)"
  by (simp_all add: start_inventory_state start_inventory_params)

lemma continue_continuous_inventory_frame [simp]:
  "round_count (inventory_state (snd (continue_continuous_inventory env w))) =
     round_count (inventory_state w)"
  "tag_count (inventory_state (snd (continue_continuous_inventory env w))) =
     tag_count (inventory_state w)"
  "state (inventory_state (snd (continue_continuous_inventory env w))) =
     state (inventory_state w)"
  "stop_reason (inventory_state (snd (continue_continuous_inventory env w))) =
     stop_reason (inventory_state w)"
  "stop_conditions (inventory_params (snd (continue_continuous_inventory env w))) =
     stop_conditions (inventory_params w)"
  "start_time_us (inventory_params (snd (continue_continuous_inventory env w))) =
     start_time_us (inventory_params w)"
  by (simp_all add: continue_continuous_inventory_def Let_def split_beta)

lemma handle_continuous_inventory_error_eq:
  "handle_continuous_inventory_error env r pk w =
     (let w' = w\<lparr>inventory_state := (inventory_state w)
                  \<lparr>state := InvIdle,
                   stop_reason := ex10_result_to_continuous_inventory_error env r\<rparr>\<rparr>
      in w'\<lparr>calls := calls w @
               MakeEx10ResultFifoPacket r (us_counter pk) #
               (if result_node_allocated env
                     (calls w @ [MakeEx10ResultFifoPacket r (us_counter pk)])
                then [ListNodePushBack
                        [\<lparr> packet_type = Ex10ResultPacket r, us_counter = us_counter pk \<rparr>]]
                else []) @
               [InsertFifoEvent True
                  \<lparr> packet_type = ContinuousInventorySummary
                                    (continuous_inventory_summary pk r w'),
                    us_counter = us_counter pk \<rparr>]\<rparr>)"
  by (simp add: handle_continuous_inventory_error_def push_continuous_inventory_summary_packet_def
        continuous_inventory_summary_def call_bool_def call_void_def call_result_def Let_def)

lemma handle_continuous_inventory_error_frame [simp]:
  "round_count (inventory_state (handle_continuous_inventory_error env r pk w)) =
     round_count (inventory_state w)"
  "tag_count (inventory_state (handle_continuous_inventory_error env r pk w)) =
     tag_count (inventory_state w)"
  "state (inventory_state (handle_continuous_inventory_error env r pk w)) = InvIdle"
  "stop_reason (inventory_state (handle_continuous_inventory_error env r pk w)) =
     ex10_result_to_continuous_inventory_error env r"
  "inventory_params (handle_continuous_inventory_error env r pk w) = inventory_params w"
  by (simp_all add: handle_continuous_inventory_error_eq Let_def)

lemma round_summary_update_frame [simp]:
  "inventory_params (snd (round_summary_update irs w)) = inventory_params w"
  "calls (snd (round_summary_update irs w)) = calls w"
  "state (inventory_state (snd (round_summary_update irs w))) = state (inventory_state w)"
  "stop_reason (inventory_state (snd (round_summary_update irs w))) = stop_reason (inventory_state w)"
  "tag_count (inventory_state (snd (round_summary_update irs w))) = tag_count (inventory_state w)"
  "target (inventory_state (snd (round_summary_update irs w))) = target (inventory_state w)"
  "done_reason (inventory_state (snd (round_summary_update irs w))) = reason_irs irs"
  "min_q_count (inventory_state (snd (round_summary_update irs w))) = min_q_count_irs irs"
  "queries_since_valid_epc_count (inventory_state (snd (round_summary_update irs w))) =
     queries_since_valid_epc_count_irs irs"
  "initial_inventory_config (inventory_state (snd (round_summary_update irs w))) =
     initial_inventory_config (inventory_state w)"
  by (simp_all add: round_summary_update_def Let_def split: InventorySummaryReason.splits)

lemma round_summary_update_round_count:
  "round_count (inventory_state (snd (round_summary_update irs w))) =
     (if reason_irs irs = InventorySummaryDone \<or> reason_irs irs = InventorySummaryHost
      then round_count (inventory_state w) + 1
      else round_count (inventory_state w))"
  by (simp add: round_summary_update_def Let_def split: InventorySummaryReason.splits)

lemma round_summary_update_error:
  "error (fst (round_summary_update irs w)) \<longleftrightarrow>
     reason_irs irs \<notin> {InventorySummaryDone, InventorySummaryHost, InventorySummaryRegulatory,
                        InventorySummaryUnsupported, InventorySummaryTxNotRampedUp}"
  by (simp add: round_summary_update_def Let_def split: InventorySummaryReason.splits)

lemma handle_round_summary_round_count:
  "round_count (inventory_state (handle_round_summary env pk irs w)) =
     round_count (inventory_state (snd (round_summary_update irs w)))"
  by (simp add: handle_round_summary_def Let_def split_beta)


subsection \<open>Evaluating the model on concrete inputs\<close>

lemmas model_defs =
  continuous_inventory_def start_inventory_def run_inventory_retry_def
  reader_ramp_for_inventory_def build_cw_configs_def call_result_def call_bool_def call_void_def
  select_race_def make_ex10_success_def make_ex10_sdk_error_def Let_def

lemmas summary_step_defs =
  handle_packet_def handle_round_summary_def round_summary_update_def
  check_stop_conditions_def elapsed_us_def Let_def

lemmas continue_step_defs =
  continue_continuous_inventory_def continue_reset_q_def continue_inventory_config_def
  continue_inventory_config_2_def call_bool_def

lemmas publish_step_defs =
  handle_continuous_inventory_error_def push_continuous_inventory_summary_packet_def
  continuous_inventory_summary_def summary_of_error_def call_result_def call_bool_def
  call_void_def make_ex10_success_def make_ex10_sdk_error_def

lemma start_inventory_env_ok:
  "start_inventory env_ok a m p cfg cfg2 sel ro w =
     (make_ex10_success,
      w\<lparr>inventory_state := (inventory_state w)\<lparr>target := target_cfg cfg\<rparr>,
        inventory_params := (inventory_params w)\<lparr>antenna := a, rf_mode := m\<rparr>,
        calls := calls w @
          [IsOpCurrentlyRunning, SetRfMode m, GetCwIsOn, UpdateChannelTimeTracking, GetCwIsOn,
           MeasureAndReadAdcTemperature, RfPowerBuildCwConfigs a m p, CwOn ro, WaitOpCompletion,
           ReadRxGainControlReg, RunInventory cfg cfg2 sel]\<rparr>)"
  by (simp add: env_ok_def start_inventory_def run_inventory_retry_def
        reader_ramp_for_inventory_def build_cw_configs_def call_bool_def call_result_def
        call_void_def select_race_def Let_def)

lemma fifo_data_handler_single:
  "packet_type pk \<noteq> InvalidPacketType \<Longrightarrow>
   fifo_data_handler env [pk] w = call_void (ListNodePushBack [pk]) (handle_packet env pk w)"
  by (simp add: fifo_data_handler_def)

lemma start_session_env_ok:
  "start_session env_ok sc dt =
     \<lparr> inventory_params =
         \<lparr> antenna = 1, rf_mode = 103, tx_power_cdbm = 3000,
           inventory_config = example_config,
           inventory_config_2 = example_config_2,
           send_selects = False,
           stop_conditions = sc,
           dual_target = dt, remain_on = False, start_time_us = 0 \<rparr>,
       inventory_state =
         \<lparr> state = InvOngoing, done_reason = InventorySummaryNone,
           initial_inventory_config = example_config, previous_q = 0, min_q_count = 0,
           queries_since_valid_epc_count = 0, stop_reason = SRNone, round_count = 0,
           tag_count = 0, target = 0 \<rparr>,
       calls = [GetDeviceTime, IsOpCurrentlyRunning, SetRfMode 103, GetCwIsOn,
                UpdateChannelTimeTracking, GetCwIsOn, MeasureAndReadAdcTemperature,
                RfPowerBuildCwConfigs 1 103 3000, CwOn False, WaitOpCompletion,
                ReadRxGainControlReg,
                RunInventory example_config example_config_2 False] \<rparr>"
  by (simp add: start_session_def env_ok_def reader_def model_defs
        zero_inventory_state_def example_config_def)


subsection \<open>Parameter checks at the start of a session\<close>

text \<open>
  Claim C1 as stated fails: \<open>continuous_inventory\<close> does not look at the bounds. With
  all three bounds zero and every device call succeeding it returns success, the state is
  \<open>InvOngoing\<close> and the configuration has been stored.
\<close>

theorem continuous_inventory_zero_bounds_counterexample:
  "\<not> error (fst (continuous_inventory env_ok 1 103 3000 (Some example_config)
                   (Some example_config_2) False (Some no_stop_conditions) False False reader)) \<and>
   state (inventory_state (snd (continuous_inventory env_ok 1 103 3000 (Some example_config)
                   (Some example_config_2) False (Some no_stop_conditions) False False reader))) =
     InvOngoing \<and>
   inventory_state (snd (continuous_inventory env_ok 1 103 3000 (Some example_config)
                   (Some example_config_2) False (Some no_stop_conditions) False False reader)) \<noteq>
     inventory_state reader \<and>
   max_number_of_rounds no_stop_conditions = 0 \<and> max_number_of_tags no_stop_conditions = 0 \<and>
   max_duration_us no_stop_conditions = 0"
  by (simp add: env_ok_def reader_def model_defs zero_inventory_state_def
        no_stop_conditions_def)

text \<open>
  Claim C1, amended. \<open>continuous_inventory\<close> rejects a null stop conditions, inventory
  configuration or second configuration pointer with the SDK null pointer error, and
  then changes nothing: the session does not start. The check that at least one bound is
  non-zero is made by the helper \<open>continuous_inventory_lbt\<close>, which returns
  \<open>InvHelperStopConditions\<close> before it calls the reader or anything else, so that no
  state changes either.
\<close>

theorem continuous_inventory_parameter_errors:
  "(stop_ptr = None \<or> cfg_ptr = None \<or> cfg2_ptr = None \<longrightarrow>
      continuous_inventory env a m p cfg_ptr cfg2_ptr sel stop_ptr dt ro w =
        (make_ex10_sdk_error Ex10ModuleReader Ex10SdkErrorNullPointer, w)) \<and>
   (max_number_of_rounds (stop_conditions_cihp cihp) = 0 \<and>
    max_number_of_tags (stop_conditions_cihp cihp) = 0 \<and>
    max_duration_us (stop_conditions_cihp cihp) = 0 \<longrightarrow>
      continuous_inventory_lbt env cihp w = (InvHelperStopConditions, w))"
  by (auto simp: continuous_inventory_def continuous_inventory_lbt_def
           split: option.splits)

theorem continuous_inventory_parameter_errors_witness:
  "continuous_inventory env_ok 1 103 3000 (Some example_config) (Some example_config_2) False
     None False False reader =
     (make_ex10_sdk_error Ex10ModuleReader Ex10SdkErrorNullPointer, reader) \<and>
   error (make_ex10_sdk_error Ex10ModuleReader Ex10SdkErrorNullPointer) \<and>
   continuous_inventory_lbt env_ok
     \<lparr> inventory_params_cihp =
         \<lparr> antenna_ihp = 1, rf_mode_ihp = 103, tx_power_cdbm_ihp = 3000,
           inventory_config_ihp = Some example_config,
           inventory_config_2_ihp = Some example_config_2,
           send_selects_ihp = False, remain_on_ihp = False, dual_target_ihp = False \<rparr>,
       stop_conditions_cihp = no_stop_conditions \<rparr> reader =
     (InvHelperStopConditions, reader)"
  using continuous_inventory_parameter_errors [of None "Some example_config"
          "Some example_config_2" env_ok 1 103 3000 False False False reader
          "\<lparr> inventory_params_cihp =
               \<lparr> antenna_ihp = 1, rf_mode_ihp = 103, tx_power_cdbm_ihp = 3000,
                 inventory_config_ihp = Some example_config,
                 inventory_config_2_ihp = Some example_config_2,
                 send_selects_ihp = False, remain_on_ihp = False, dual_target_ihp = False \<rparr>,
             stop_conditions_cihp = no_stop_conditions \<rparr>"]
  by (simp add: no_stop_conditions_def)

subsection \<open>The duration reported when the duration bound stops a session\<close>

lemma elapsed_us_eq: "elapsed_us start t = t - start"
  by (simp add: elapsed_us_def)

lemma check_stop_conditions_max_duration:
  assumes "stop_reason (inventory_state w) = SRNone"
    and "stop_reason (inventory_state (snd (check_stop_conditions t w))) = SRMaxDuration"
  shows "fst (check_stop_conditions t w)"
    and "0 < max_duration_us (stop_conditions (inventory_params w))"
    and "max_duration_us (stop_conditions (inventory_params w)) \<le> t - start_time_us (inventory_params w)"
    and "snd (check_stop_conditions t w) =
           w\<lparr>inventory_state := (inventory_state w)\<lparr>stop_reason := SRMaxDuration\<rparr>\<rparr>"
  using assms
  by (auto simp: check_stop_conditions_def Let_def elapsed_us_eq split: if_splits)

lemma scenario_B_first:
  "fifo_data_handler env_ok [summary_packet InventorySummaryDone 2 1000000]
     (start_session env_ok duration_2s False) =
   \<lparr> inventory_params =
       \<lparr> antenna = 1, rf_mode = 103, tx_power_cdbm = 3000,
         inventory_config = example_config,
         inventory_config_2 = example_config_2,
         send_selects = False,
         stop_conditions = duration_2s,
         dual_target = False, remain_on = False, start_time_us = 0 \<rparr>,
     inventory_state =
       \<lparr> state = InvOngoing, done_reason = InventorySummaryDone,
         initial_inventory_config = example_config, previous_q = 0, min_q_count = 3,
         queries_since_valid_epc_count = 4, stop_reason = SRNone, round_count = 1,
         tag_count = 0, target = 0 \<rparr>,
     calls = calls (start_session env_ok duration_2s False) @
             [IsOpCurrentlyRunning, SetRfMode 103, GetCwIsOn, UpdateChannelTimeTracking,
              GetCwIsOn, MeasureAndReadAdcTemperature, RfPowerBuildCwConfigs 1 103 3000,
              CwOn False, WaitOpCompletion, ReadRxGainControlReg,
              RunInventory example_config example_config_2 False,
              ListNodePushBack [summary_packet InventorySummaryDone 2 1000000]] \<rparr>"
  by (simp add: fifo_data_handler_single start_session_env_ok summary_packet_def duration_2s_def
        summary_step_defs continue_step_defs start_inventory_env_ok call_void_def
        example_config_def example_config_2_def)



text \<open>
  Claim C2 as stated fails: with a bound of 2 s and round summaries at 1 s and 2.5 s
  after a start at device time 0, the session stops at the second summary with reason
  \<open>SRMaxDuration\<close> and a reported duration of 2.5 s, the counter of that packet.
\<close>

theorem max_duration_reported_counterexample:
  "InsertFifoEvent True
     \<lparr> packet_type = ContinuousInventorySummary
         \<lparr> duration_us = 2500000, number_of_inventory_rounds = 2, number_of_tags = 0,
           reason = SRMaxDuration, last_op_id = OtherOp 0, last_op_error = ErrorNone,
           packet_rfu_1 = 0 \<rparr>,
       us_counter = 2500000 \<rparr>
     \<in> set (calls (fifo_data_handler env_ok [summary_packet InventorySummaryDone 2 2500000]
                     (fifo_data_handler env_ok [summary_packet InventorySummaryDone 2 1000000]
                        (start_session env_ok duration_2s False)))) \<and>
   max_duration_us duration_2s = 2000000 \<and>
   \<not> (2500000 :: 32 word) \<le> 2000000"
  unfolding scenario_B_first
  by (simp add: fifo_data_handler_single summary_packet_def duration_2s_def
        summary_step_defs publish_step_defs)

text \<open>
  Claim C2, amended. When the duration bound stops a session at a round summary, the
  summary packet published has reason \<open>SRMaxDuration\<close> and its \<open>duration_us\<close> is the
  counter of that round summary minus the start time (modulo \<open>2^32\<close>), which is at
  least \<open>max_duration_us\<close>; the state returns to \<open>InvIdle\<close>.
\<close>

theorem max_duration_reported:
  assumes "state (inventory_state w) \<noteq> InvIdle"
    and "packet_type pk = InventoryRoundSummary irs"
    and "\<not> error (fst (round_summary_update irs w))"
    and "stop_reason (inventory_state w) = SRNone"
    and "stop_reason (inventory_state
           (snd (check_stop_conditions (us_counter pk) (snd (round_summary_update irs w))))) =
         SRMaxDuration"
  shows "calls (handle_packet env pk w) =
           calls w @
           [InsertFifoEvent True
              \<lparr> packet_type = ContinuousInventorySummary
                  \<lparr> duration_us = us_counter pk - start_time_us (inventory_params w),
                    number_of_inventory_rounds =
                      round_count (inventory_state (handle_packet env pk w)),
                    number_of_tags = tag_count (inventory_state w),
                    reason = SRMaxDuration, last_op_id = OtherOp 0, last_op_error = ErrorNone,
                    packet_rfu_1 = 0 \<rparr>,
                us_counter = us_counter pk \<rparr>] \<and>
         max_duration_us (stop_conditions (inventory_params w))
           \<le> us_counter pk - start_time_us (inventory_params w) \<and>
         0 < max_duration_us (stop_conditions (inventory_params w)) \<and>
         stop_reason (inventory_state (handle_packet env pk w)) = SRMaxDuration \<and>
         state (inventory_state (handle_packet env pk w)) = InvIdle"
proof -
  define w1 where "w1 = snd (round_summary_update irs w)"
  have none: "stop_reason (inventory_state w1) = SRNone"
    using assms(4) by (simp add: w1_def)
  have dur: "stop_reason (inventory_state (snd (check_stop_conditions (us_counter pk) w1))) =
             SRMaxDuration"
    using assms(5) by (simp add: w1_def)
  note facts = check_stop_conditions_max_duration [OF none dur]
  have hp: "handle_packet env pk w =
            push_continuous_inventory_summary_packet env pk (fst (round_summary_update irs w))
              (w1\<lparr>inventory_state := (inventory_state w1)
                    \<lparr>stop_reason := SRMaxDuration, state := InvIdle\<rparr>\<rparr>)"
    using assms(1,2,3) facts(1) facts(4)
    by (simp add: handle_packet_def handle_round_summary_def Let_def split_beta w1_def)
  show ?thesis
    using facts(2,3) assms(3)
    by (simp add: hp continuous_inventory_summary_def summary_of_error_def w1_def)
qed

theorem max_duration_reported_witness:
  "state (inventory_state (start_session env_ok duration_2s False)) \<noteq> InvIdle \<and>
   \<not> error (fst (round_summary_update
                  \<lparr> reason_irs = InventorySummaryDone, final_q = 2, min_q_count_irs = 3,
                    queries_since_valid_epc_count_irs = 4 \<rparr>
                  (start_session env_ok duration_2s False))) \<and>
   stop_reason (inventory_state (start_session env_ok duration_2s False)) = SRNone \<and>
   stop_reason (inventory_state
     (snd (check_stop_conditions 2500000
        (snd (round_summary_update
                \<lparr> reason_irs = InventorySummaryDone, final_q = 2, min_q_count_irs = 3,
                  queries_since_valid_epc_count_irs = 4 \<rparr>
                (start_session env_ok duration_2s False)))))) = SRMaxDuration \<and>
   calls (handle_packet env_ok (summary_packet InventorySummaryDone 2 2500000)
            (start_session env_ok duration_2s False)) =
     calls (start_session env_ok duration_2s False) @
     [InsertFifoEvent True
        \<lparr> packet_type = ContinuousInventorySummary
            \<lparr> duration_us = 2500000, number_of_inventory_rounds = 1, number_of_tags = 0,
              reason = SRMaxDuration, last_op_id = OtherOp 0, last_op_error = ErrorNone,
              packet_rfu_1 = 0 \<rparr>,
          us_counter = 2500000 \<rparr>]"
proof -
  have a: "state (inventory_state (start_session env_ok duration_2s False)) \<noteq> InvIdle"
    by (simp add: start_session_env_ok)
  have b: "packet_type (summary_packet InventorySummaryDone 2 2500000) =
           InventoryRoundSummary
             \<lparr> reason_irs = InventorySummaryDone, final_q = 2, min_q_count_irs = 3,
               queries_since_valid_epc_count_irs = 4 \<rparr>"
    by (simp add: summary_packet_def)
  have c: "\<not> error (fst (round_summary_update
                  \<lparr> reason_irs = InventorySummaryDone, final_q = 2, min_q_count_irs = 3,
                    queries_since_valid_epc_count_irs = 4 \<rparr>
                  (start_session env_ok duration_2s False)))"
    by (simp add: round_summary_update_error)
  have d: "stop_reason (inventory_state (start_session env_ok duration_2s False)) = SRNone"
    by (simp add: start_session_env_ok)
  have e: "stop_reason (inventory_state
     (snd (check_stop_conditions (us_counter (summary_packet InventorySummaryDone 2 2500000))
        (snd (round_summary_update
                \<lparr> reason_irs = InventorySummaryDone, final_q = 2, min_q_count_irs = 3,
                  queries_since_valid_epc_count_irs = 4 \<rparr>
                (start_session env_ok duration_2s False)))))) = SRMaxDuration"
    by (simp add: start_session_env_ok summary_packet_def duration_2s_def
          round_summary_update_def check_stop_conditions_def elapsed_us_def Let_def)
  show ?thesis
    using max_duration_reported [OF a b c d e, of env_ok] a c d e
    by (simp add: summary_packet_def start_session_env_ok round_summary_update_round_count
          handle_packet_def handle_round_summary_round_count)
qed

subsection \<open>The stop reason of a session\<close>

lemma check_stop_conditions_true_reason:
  "fst (check_stop_conditions t w) \<Longrightarrow>
   stop_reason (inventory_state (snd (check_stop_conditions t w))) \<noteq> SRNone"
  by (auto simp: check_stop_conditions_def Let_def split: if_splits)

lemma handle_round_summary_cases:
  "state (inventory_state (handle_round_summary env pk irs w)) = InvIdle \<or>
   (stop_reason (inventory_state (handle_round_summary env pk irs w)) = SRNone \<and>
    stop_reason (inventory_state w) = SRNone)"
proof -
  define w1 where "w1 = snd (round_summary_update irs w)"
  define w2 where "w2 = snd (check_stop_conditions (us_counter pk) w1)"
  show ?thesis
  proof (cases "error (fst (round_summary_update irs w))")
    case True
    then show ?thesis
      by (simp add: handle_round_summary_def Let_def split_beta)
  next
    case False
    show ?thesis
    proof (cases "fst (check_stop_conditions (us_counter pk) w1)")
      case True
      with False show ?thesis
        by (simp add: handle_round_summary_def Let_def split_beta w1_def)
    next
      case stop: False
      have none: "stop_reason (inventory_state w1) = SRNone"
        using stop by (rule check_stop_conditions_false_reason)
      have same: "w2 = w1"
        unfolding w2_def using stop by (rule check_stop_conditions_false)
      show ?thesis
      proof (cases "error (fst (continue_continuous_inventory env w2))")
        case True
        with False stop show ?thesis
          by (simp add: handle_round_summary_def Let_def split_beta w1_def w2_def)
      next
        case cont: False
        have "handle_round_summary env pk irs w = snd (continue_continuous_inventory env w2)"
          using False stop cont
          by (simp add: handle_round_summary_def Let_def split_beta w1_def w2_def)
        then show ?thesis
          using none same by (simp add: w1_def)
      qed
    qed
  qed
qed

lemma handle_packet_stopped_is_idle:
  "stopped_is_idle w \<Longrightarrow> stopped_is_idle (handle_packet env pk w)"
proof (cases "state (inventory_state w) = InvIdle")
  case True
  assume "stopped_is_idle w"
  with True show ?thesis by (simp add: handle_packet_def)
next
  case False
  assume inv: "stopped_is_idle w"
  show ?thesis
  proof (cases "packet_type pk")
    case (InventoryRoundSummary irs)
    with False have "handle_packet env pk w = handle_round_summary env pk irs w"
      by (simp add: handle_packet_def)
    then show ?thesis
      using handle_round_summary_cases [of env pk irs w]
      by (auto simp: stopped_is_idle_def)
  qed (use inv False in \<open>auto simp: handle_packet_def stopped_is_idle_def\<close>)
qed

lemma handle_packet_idle:
  "state (inventory_state w) = InvIdle \<Longrightarrow> handle_packet env pk w = w"
  by (simp add: handle_packet_def)

lemma fifo_data_loop_stopped_is_idle:
  "stopped_is_idle w \<Longrightarrow> stopped_is_idle (fifo_data_loop env pks w)"
  by (induction pks arbitrary: w) (simp_all add: handle_packet_stopped_is_idle)

lemma fifo_data_loop_idle:
  "state (inventory_state w) = InvIdle \<Longrightarrow> fifo_data_loop env pks w = w"
  by (induction pks arbitrary: w) (simp_all add: handle_packet_idle)

lemma reader_event_stopped_is_idle:
  "stopped_is_idle w \<Longrightarrow> stopped_is_idle (reader_event env e w)"
proof (cases e)
  case (FifoData node)
  assume "stopped_is_idle w"
  then have "stopped_is_idle (fifo_data_loop env node w)"
    by (rule fifo_data_loop_stopped_is_idle)
  then show ?thesis
    using FifoData by (simp add: fifo_data_handler_def stopped_is_idle_def)
next
  case StopTransmitting
  assume "stopped_is_idle w"
  then show ?thesis
    using StopTransmitting by (auto simp: stop_transmitting_def stopped_is_idle_def Let_def)
next
  case (Inventory a m p cfg cfg2 sel ro)
  assume "stopped_is_idle w"
  then show ?thesis
    using Inventory by (simp add: inventory_def stopped_is_idle_def)
qed

lemma reader_event_idle:
  assumes "state (inventory_state w) = InvIdle"
  shows "state (inventory_state (reader_event env e w)) = InvIdle \<and>
         stop_reason (inventory_state (reader_event env e w)) = stop_reason (inventory_state w)"
proof (cases e)
  case (FifoData node)
  then show ?thesis
    using assms by (simp add: fifo_data_handler_def fifo_data_loop_idle)
next
  case StopTransmitting
  then show ?thesis
    using assms by (simp add: stop_transmitting_def Let_def)
next
  case (Inventory a m p cfg cfg2 sel ro)
  then show ?thesis
    using assms by (simp add: inventory_def)
qed

lemma reader_events_stopped_is_idle:
  "stopped_is_idle w \<Longrightarrow> stopped_is_idle (reader_events env es w)"
  by (induction es arbitrary: w) (simp_all add: reader_event_stopped_is_idle)

lemma reader_events_idle:
  "state (inventory_state w) = InvIdle \<Longrightarrow>
   stop_reason (inventory_state (reader_events env es w)) = stop_reason (inventory_state w)"
proof (induction es arbitrary: w)
  case Nil
  then show ?case by simp
next
  case (Cons e es)
  from reader_event_idle [OF Cons.prems, of env e]
  have idle: "state (inventory_state (reader_event env e w)) = InvIdle"
    and same: "stop_reason (inventory_state (reader_event env e w)) = stop_reason (inventory_state w)"
    by simp_all
  show ?case
    using Cons.IH [OF idle] same by simp
qed

lemma continuous_inventory_stopped_is_idle:
  "stopped_is_idle (snd (continuous_inventory env a m p (Some cfg) (Some cfg2) sel (Some sc) dt ro w))"
  by (simp add: continuous_inventory_def stopped_is_idle_def Let_def split_beta)

text \<open>
  Claim C5. A stop reason that is set is kept: \<open>check_stop_conditions\<close> returns at once,
  changing nothing, when a reason is set; when none is set it takes the first condition
  met in the order rounds, tags, duration, host stop request; and in a session started by
  \<open>continuous_inventory\<close>, whatever buffers are delivered and whatever \<open>stop_transmitting\<close>
  and \<open>inventory\<close> calls are made, a stop reason other than \<open>SRNone\<close> reached after
  some events is still the stop reason after any further events.
\<close>

theorem stop_reason_first_set_wins:
  "(stop_reason (inventory_state w) \<noteq> SRNone \<longrightarrow> check_stop_conditions t w = (True, w)) \<and>
   (stop_reason (inventory_state w) = SRNone \<longrightarrow>
      stop_reason (inventory_state (snd (check_stop_conditions t w))) =
        (if 0 < max_number_of_rounds (stop_conditions (inventory_params w)) \<and>
            max_number_of_rounds (stop_conditions (inventory_params w)) \<le> round_count (inventory_state w)
         then SRMaxNumberOfRounds
         else if 0 < max_number_of_tags (stop_conditions (inventory_params w)) \<and>
            max_number_of_tags (stop_conditions (inventory_params w)) \<le> tag_count (inventory_state w)
         then SRMaxNumberOfTags
         else if 0 < max_duration_us (stop_conditions (inventory_params w)) \<and>
            max_duration_us (stop_conditions (inventory_params w))
              \<le> elapsed_us (start_time_us (inventory_params w)) t
         then SRMaxDuration
         else if state (inventory_state w) = InvStopRequested then SRHost
         else SRNone)) \<and>
   (stop_reason (inventory_state
      (reader_events env es1
        (snd (continuous_inventory env a m p (Some cfg) (Some cfg2) sel (Some sc) dt ro w0))))
      \<noteq> SRNone \<longrightarrow>
    stop_reason (inventory_state
      (reader_events env es2 (reader_events env es1
        (snd (continuous_inventory env a m p (Some cfg) (Some cfg2) sel (Some sc) dt ro w0))))) =
    stop_reason (inventory_state
      (reader_events env es1
        (snd (continuous_inventory env a m p (Some cfg) (Some cfg2) sel (Some sc) dt ro w0)))))"
proof (intro conjI impI)
  assume "stop_reason (inventory_state w) \<noteq> SRNone"
  then show "check_stop_conditions t w = (True, w)"
    by (simp add: check_stop_conditions_def Let_def)
next
  assume "stop_reason (inventory_state w) = SRNone"
  then show "stop_reason (inventory_state (snd (check_stop_conditions t w))) =
        (if 0 < max_number_of_rounds (stop_conditions (inventory_params w)) \<and>
            max_number_of_rounds (stop_conditions (inventory_params w)) \<le> round_count (inventory_state w)
         then SRMaxNumberOfRounds
         else if 0 < max_number_of_tags (stop_conditions (inventory_params w)) \<and>
            max_number_of_tags (stop_conditions (inventory_params w)) \<le> tag_count (inventory_state w)
         then SRMaxNumberOfTags
         else if 0 < max_duration_us (stop_conditions (inventory_params w)) \<and>
            max_duration_us (stop_conditions (inventory_params w))
              \<le> elapsed_us (start_time_us (inventory_params w)) t
         then SRMaxDuration
         else if state (inventory_state w) = InvStopRequested then SRHost
         else SRNone)"
    by (simp add: check_stop_conditions_def Let_def)
next
  define w1 where
    "w1 = reader_events env es1
            (snd (continuous_inventory env a m p (Some cfg) (Some cfg2) sel (Some sc) dt ro w0))"
  assume "stop_reason (inventory_state
      (reader_events env es1
        (snd (continuous_inventory env a m p (Some cfg) (Some cfg2) sel (Some sc) dt ro w0))))
      \<noteq> SRNone"
  then have set: "stop_reason (inventory_state w1) \<noteq> SRNone"
    by (simp add: w1_def)
  have "stopped_is_idle w1"
    unfolding w1_def
    by (rule reader_events_stopped_is_idle) (rule continuous_inventory_stopped_is_idle)
  with set have "state (inventory_state w1) = InvIdle"
    by (simp add: stopped_is_idle_def)
  then have "stop_reason (inventory_state (reader_events env es2 w1)) =
             stop_reason (inventory_state w1)"
    by (rule reader_events_idle)
  then show "stop_reason (inventory_state
      (reader_events env es2 (reader_events env es1
        (snd (continuous_inventory env a m p (Some cfg) (Some cfg2) sel (Some sc) dt ro w0))))) =
    stop_reason (inventory_state
      (reader_events env es1
        (snd (continuous_inventory env a m p (Some cfg) (Some cfg2) sel (Some sc) dt ro w0))))"
    by (simp add: w1_def)
qed

lemma both_conditions_stop:
  "fifo_data_handler env_ok [summary_packet InventorySummaryDone 2 2500000]
     (start_session env_ok rounds_1_duration_2s False) =
   \<lparr> inventory_params =
       \<lparr> antenna = 1, rf_mode = 103, tx_power_cdbm = 3000,
         inventory_config = example_config,
         inventory_config_2 = example_config_2,
         send_selects = False,
         stop_conditions = rounds_1_duration_2s,
         dual_target = False, remain_on = False, start_time_us = 0 \<rparr>,
     inventory_state =
       \<lparr> state = InvIdle, done_reason = InventorySummaryDone,
         initial_inventory_config = example_config, previous_q = 0, min_q_count = 3,
         queries_since_valid_epc_count = 4, stop_reason = SRMaxNumberOfRounds, round_count = 1,
         tag_count = 0, target = 0 \<rparr>,
     calls = calls (start_session env_ok rounds_1_duration_2s False) @
             [InsertFifoEvent True
                \<lparr> packet_type = ContinuousInventorySummary
                    \<lparr> duration_us = 2500000, number_of_inventory_rounds = 1,
                      number_of_tags = 0, reason = SRMaxNumberOfRounds,
                      last_op_id = OtherOp 0, last_op_error = ErrorNone, packet_rfu_1 = 0 \<rparr>,
                  us_counter = 2500000 \<rparr>,
              ListNodePushBack [summary_packet InventorySummaryDone 2 2500000]] \<rparr>"
  unfolding start_session_env_ok
  by (simp add: fifo_data_handler_single summary_packet_def rounds_1_duration_2s_def
        summary_step_defs publish_step_defs)

theorem stop_reason_first_set_wins_witness:
  "stop_reason (inventory_state
     (reader_events env_ok [FifoData [summary_packet InventorySummaryDone 2 2500000]]
        (start_session env_ok rounds_1_duration_2s False))) = SRMaxNumberOfRounds \<and>
   stop_reason (inventory_state
     (reader_events env_ok
        [StopTransmitting, FifoData [summary_packet InventorySummaryDone 2 3000000]]
        (reader_events env_ok [FifoData [summary_packet InventorySummaryDone 2 2500000]]
           (start_session env_ok rounds_1_duration_2s False)))) = SRMaxNumberOfRounds \<and>
   fst (check_stop_conditions 3000000
     (reader_events env_ok [FifoData [summary_packet InventorySummaryDone 2 2500000]]
        (start_session env_ok rounds_1_duration_2s False))) \<and>
   stop_reason (inventory_state (snd (round_summary_update done_summary
        (start_session env_ok rounds_1_duration_2s False)))) = SRNone \<and>
   stop_reason (inventory_state (snd (check_stop_conditions 2500000
     (snd (round_summary_update done_summary
        (start_session env_ok rounds_1_duration_2s False)))))) = SRMaxNumberOfRounds"
proof -
  let ?w0 = "start_session env_ok rounds_1_duration_2s False"
  let ?es1 = "[FifoData [summary_packet InventorySummaryDone 2 2500000]]"
  let ?es2 = "[StopTransmitting, FifoData [summary_packet InventorySummaryDone 2 3000000]]"
  let ?w1 = "snd (round_summary_update done_summary ?w0)"
  have first: "stop_reason (inventory_state (reader_events env_ok ?es1 ?w0)) = SRMaxNumberOfRounds"
    by (simp add: both_conditions_stop)
  have none: "stop_reason (inventory_state ?w1) = SRNone"
    by (simp add: start_session_env_ok)
  have w1: "round_count (inventory_state ?w1) = 1"
           "stop_conditions (inventory_params ?w1) = rounds_1_duration_2s"
    by (simp_all add: start_session_env_ok round_summary_update_round_count done_summary_def)
  have later: "stop_reason (inventory_state (reader_events env_ok ?es2 (reader_events env_ok ?es1 ?w0))) =
               SRMaxNumberOfRounds"
    using stop_reason_first_set_wins [of "reader_events env_ok ?es1 ?w0" 3000000 env_ok ?es1
            1 103 3000 example_config example_config_2 False rounds_1_duration_2s False False
            reader ?es2]
          first
    by (simp add: start_session_def)
  have kept: "fst (check_stop_conditions 3000000 (reader_events env_ok ?es1 ?w0))"
    using stop_reason_first_set_wins [of "reader_events env_ok ?es1 ?w0" 3000000 env_ok ?es1
            1 103 3000 example_config example_config_2 False rounds_1_duration_2s False False
            reader ?es2]
          first
    by simp
  have order: "stop_reason (inventory_state (snd (check_stop_conditions 2500000 ?w1))) =
               SRMaxNumberOfRounds"
    using stop_reason_first_set_wins [of ?w1 2500000 env_ok ?es1
            1 103 3000 example_config example_config_2 False rounds_1_duration_2s False False
            reader ?es2]
          none w1
    by (simp add: rounds_1_duration_2s_def)
  show ?thesis
    using first later kept none order by simp
qed

subsection \<open>Errors raised while a session is active\<close>

lemma summary_of_error_eq:
  "summary_of_error r s =
     s\<lparr> reason :=
          (if error r \<and> module r = Ex10ModuleDevice \<and>
              (result_code r = device Ex10DeviceErrorCommandsNoResponse \<or>
               result_code r = device Ex10DeviceErrorCommandsWithResponse)
           then SRDeviceCommandError
           else if error r \<and> module r = Ex10ModuleDevice \<and>
                   result_code r = device Ex10DeviceErrorOps
           then SROpError
           else if error r \<and> module r = Ex10ModuleDevice \<and>
                   result_code r = device Ex10DeviceErrorOpsTimeout
           then SRSdkTimeoutError
           else if error r \<and> module r \<noteq> Ex10ModuleDevice \<and>
                   result_code r = sdk Ex10SdkErrorAggBufferOverflow
           then SRDeviceAggregateBufferOverflow
           else if error r \<and> module r \<noteq> Ex10ModuleDevice \<and>
                   result_code r = sdk Ex10AboveThreshold
           then SRDeviceRampCallbackError
           else reason s),
        last_op_id :=
          (if error r \<and> module r = Ex10ModuleDevice \<and>
              (result_code r = device Ex10DeviceErrorOps \<or>
               result_code r = device Ex10DeviceErrorOpsTimeout)
           then op_id (ops_status r) else last_op_id s),
        last_op_error :=
          (if error r \<and> module r = Ex10ModuleDevice \<and>
              (result_code r = device Ex10DeviceErrorOps \<or>
               result_code r = device Ex10DeviceErrorOpsTimeout)
           then error_ops (ops_status r) else last_op_error s) \<rparr>"
  by (simp add: summary_of_error_def
        split: Ex10ResultCode.splits Ex10DeviceResultCode.splits Ex10SdkResultCode.splits)

lemma handle_error_calls:
  "calls (handle_continuous_inventory_error env r pk w) =
     calls w @
     MakeEx10ResultFifoPacket r (us_counter pk) #
     (if result_node_allocated env (calls w @ [MakeEx10ResultFifoPacket r (us_counter pk)])
      then [ListNodePushBack [\<lparr> packet_type = Ex10ResultPacket r, us_counter = us_counter pk \<rparr>]]
      else []) @
     [InsertFifoEvent True
        \<lparr> packet_type = ContinuousInventorySummary
            (\<lparr> duration_us = us_counter pk - start_time_us (inventory_params w),
               number_of_inventory_rounds = round_count (inventory_state w),
               number_of_tags = tag_count (inventory_state w),
               reason =
                 (if error r \<and> module r = Ex10ModuleDevice \<and>
                     (result_code r = device Ex10DeviceErrorCommandsNoResponse \<or>
                      result_code r = device Ex10DeviceErrorCommandsWithResponse)
                  then SRDeviceCommandError
                  else if error r \<and> module r = Ex10ModuleDevice \<and>
                          result_code r = device Ex10DeviceErrorOps
                  then SROpError
                  else if error r \<and> module r = Ex10ModuleDevice \<and>
                          result_code r = device Ex10DeviceErrorOpsTimeout
                  then SRSdkTimeoutError
                  else if error r \<and> module r \<noteq> Ex10ModuleDevice \<and>
                          result_code r = sdk Ex10SdkErrorAggBufferOverflow
                  then SRDeviceAggregateBufferOverflow
                  else if error r \<and> module r \<noteq> Ex10ModuleDevice \<and>
                          result_code r = sdk Ex10AboveThreshold
                  then SRDeviceRampCallbackError
                  else ex10_result_to_continuous_inventory_error env r),
               last_op_id =
                 (if error r \<and> module r = Ex10ModuleDevice \<and>
                     (result_code r = device Ex10DeviceErrorOps \<or>
                      result_code r = device Ex10DeviceErrorOpsTimeout)
                  then op_id (ops_status r) else OtherOp 0),
               last_op_error =
                 (if error r \<and> module r = Ex10ModuleDevice \<and>
                     (result_code r = device Ex10DeviceErrorOps \<or>
                      result_code r = device Ex10DeviceErrorOpsTimeout)
                  then error_ops (ops_status r) else ErrorNone),
               packet_rfu_1 = 0 \<rparr>),
          us_counter = us_counter pk \<rparr>]"
  by (auto simp: handle_continuous_inventory_error_eq continuous_inventory_summary_def
        summary_of_error_eq Let_def)

lemma round_summary_update_error_result:
  "error (fst (round_summary_update irs w)) \<Longrightarrow>
   fst (round_summary_update irs w) =
     make_ex10_sdk_error Ex10ModuleReader
       (case reason_irs irs of
          InventorySummaryEventFifoFull \<Rightarrow> Ex10SdkEventFifoFull
        | InventorySummaryInvalidParam \<Rightarrow> Ex10InventoryInvalidParam
        | InventorySummaryLmacOverload \<Rightarrow> Ex10SdkLmacOverload
        | _ \<Rightarrow> Ex10InventorySummaryReasonInvalid)"
  by (simp add: round_summary_update_def Let_def split: InventorySummaryReason.splits)

text \<open>
  Claim C4 as stated fails: when no result node can be allocated the handler publishes
  the summary alone. Here a round summary with reason \<open>InventorySummaryEventFifoFull\<close>
  arrives in an environment where \<open>make_ex10_result_fifo_packet\<close> returns \<open>NULL\<close>: the
  only node pushed to the queue is the delivered buffer itself, after the summary.
\<close>

theorem session_error_published_counterexample:
  "calls (fifo_data_handler env_ok [summary_packet InventorySummaryEventFifoFull 2 5]
            (start_session env_ok rounds_7 False)) =
     calls (start_session env_ok rounds_7 False) @
     [MakeEx10ResultFifoPacket (make_ex10_sdk_error Ex10ModuleReader Ex10SdkEventFifoFull) 5,
      InsertFifoEvent True
        \<lparr> packet_type = ContinuousInventorySummary
            \<lparr> duration_us = 5, number_of_inventory_rounds = 0, number_of_tags = 0,
              reason = SROther 0, last_op_id = OtherOp 0, last_op_error = ErrorNone,
              packet_rfu_1 = 0 \<rparr>,
          us_counter = 5 \<rparr>,
      ListNodePushBack [summary_packet InventorySummaryEventFifoFull 2 5]] \<and>
   state (inventory_state
     (fifo_data_handler env_ok [summary_packet InventorySummaryEventFifoFull 2 5]
        (start_session env_ok rounds_7 False))) = InvIdle"
  unfolding start_session_env_ok
  by (simp add: fifo_data_handler_single summary_packet_def rounds_7_def env_ok_def
        sr_of_result_def summary_step_defs publish_step_defs)

text \<open>
  Claim C4, amended. While a session is active, an error raised by a round summary
  (reason \<open>EventFifoFull\<close>, \<open>InvalidParam\<close>, \<open>LmacOverload\<close>, \<open>None\<close> or unknown) or by
  the start of the next round is not returned: the handler returns the state produced by
  \<open>handle_continuous_inventory_error\<close>. That state is \<open>InvIdle\<close>, its stop reason is the
  one \<open>ex10_result_to_continuous_inventory_error\<close> gives for the error, and the calls
  added are the request for a result node, then, provided a node was allocated, the push
  of the result packet holding the error, and last the insertion of the summary packet,
  published with the interrupt requested and the time stamp of the round summary. The
  summary holds the duration since the session start, the round and tag counts, and a
  reason that is \<open>SRDeviceCommandError\<close> for the two device command errors, \<open>SROpError\<close>
  for a device op error and \<open>SRSdkTimeoutError\<close> for a device op timeout, these two also
  filling in the op id and the op error of the result; for an error of any other module
  the reason is \<open>SRDeviceAggregateBufferOverflow\<close> or \<open>SRDeviceRampCallbackError\<close> for those
  two SDK codes; in every other case the reason is the stop reason just set and the op
  fields are zero. When no node is allocated the summary is published alone.
\<close>

theorem session_error_published:
  assumes "state (inventory_state w) \<noteq> InvIdle"
    and "packet_type pk = InventoryRoundSummary irs"
  shows
    "(error (fst (round_summary_update irs w)) \<longrightarrow>
        handle_packet env pk w =
          handle_continuous_inventory_error env (fst (round_summary_update irs w)) pk
            (snd (round_summary_update irs w)) \<and>
        fst (round_summary_update irs w) =
          make_ex10_sdk_error Ex10ModuleReader
            (case reason_irs irs of
               InventorySummaryEventFifoFull \<Rightarrow> Ex10SdkEventFifoFull
             | InventorySummaryInvalidParam \<Rightarrow> Ex10InventoryInvalidParam
             | InventorySummaryLmacOverload \<Rightarrow> Ex10SdkLmacOverload
             | _ \<Rightarrow> Ex10InventorySummaryReasonInvalid)) \<and>
     (\<not> error (fst (round_summary_update irs w)) \<and>
      \<not> fst (check_stop_conditions (us_counter pk) (snd (round_summary_update irs w))) \<and>
      error (fst (continue_continuous_inventory env (snd (round_summary_update irs w)))) \<longrightarrow>
        handle_packet env pk w =
          handle_continuous_inventory_error env
            (fst (continue_continuous_inventory env (snd (round_summary_update irs w)))) pk
            (snd (continue_continuous_inventory env (snd (round_summary_update irs w))))) \<and>
     (error (fst (round_summary_update irs w)) \<longleftrightarrow>
        reason_irs irs \<notin> {InventorySummaryDone, InventorySummaryHost, InventorySummaryRegulatory,
                           InventorySummaryUnsupported, InventorySummaryTxNotRampedUp}) \<and>
     state (inventory_state (handle_continuous_inventory_error env r pk w')) = InvIdle \<and>
     stop_reason (inventory_state (handle_continuous_inventory_error env r pk w')) =
       ex10_result_to_continuous_inventory_error env r \<and>
     calls (handle_continuous_inventory_error env r pk w') =
       calls w' @
       MakeEx10ResultFifoPacket r (us_counter pk) #
       (if result_node_allocated env (calls w' @ [MakeEx10ResultFifoPacket r (us_counter pk)])
        then [ListNodePushBack [\<lparr> packet_type = Ex10ResultPacket r, us_counter = us_counter pk \<rparr>]]
        else []) @
       [InsertFifoEvent True
          \<lparr> packet_type = ContinuousInventorySummary
              (\<lparr> duration_us = us_counter pk - start_time_us (inventory_params w'),
                 number_of_inventory_rounds = round_count (inventory_state w'),
                 number_of_tags = tag_count (inventory_state w'),
                 reason =
                   (if error r \<and> module r = Ex10ModuleDevice \<and>
                       (result_code r = device Ex10DeviceErrorCommandsNoResponse \<or>
                        result_code r = device Ex10DeviceErrorCommandsWithResponse)
                    then SRDeviceCommandError
                    else if error r \<and> module r = Ex10ModuleDevice \<and>
                            result_code r = device Ex10DeviceErrorOps
                    then SROpError
                    else if error r \<and> module r = Ex10ModuleDevice \<and>
                            result_code r = device Ex10DeviceErrorOpsTimeout
                    then SRSdkTimeoutError
                    else if error r \<and> module r \<noteq> Ex10ModuleDevice \<and>
                            result_code r = sdk Ex10SdkErrorAggBufferOverflow
                    then SRDeviceAggregateBufferOverflow
                    else if error r \<and> module r \<noteq> Ex10ModuleDevice \<and>
                            result_code r = sdk Ex10AboveThreshold
                    then SRDeviceRampCallbackError
                    else ex10_result_to_continuous_inventory_error env r),
                 last_op_id =
                   (if error r \<and> module r = Ex10ModuleDevice \<and>
                       (result_code r = device Ex10DeviceErrorOps \<or>
                        result_code r = device Ex10DeviceErrorOpsTimeout)
                    then op_id (ops_status r) else OtherOp 0),
                 last_op_error =
                   (if error r \<and> module r = Ex10ModuleDevice \<and>
                       (result_code r = device Ex10DeviceErrorOps \<or>
                        result_code r = device Ex10DeviceErrorOpsTimeout)
                    then error_ops (ops_status r) else ErrorNone),
                 packet_rfu_1 = 0 \<rparr>),
            us_counter = us_counter pk \<rparr>]"
proof (intro conjI impI)
  assume err: "error (fst (round_summary_update irs w))"
  show "handle_packet env pk w =
          handle_continuous_inventory_error env (fst (round_summary_update irs w)) pk
            (snd (round_summary_update irs w))"
    using assms err by (simp add: handle_packet_def handle_round_summary_def Let_def split_beta)
  show "fst (round_summary_update irs w) =
          make_ex10_sdk_error Ex10ModuleReader
            (case reason_irs irs of
               InventorySummaryEventFifoFull \<Rightarrow> Ex10SdkEventFifoFull
             | InventorySummaryInvalidParam \<Rightarrow> Ex10InventoryInvalidParam
             | InventorySummaryLmacOverload \<Rightarrow> Ex10SdkLmacOverload
             | _ \<Rightarrow> Ex10InventorySummaryReasonInvalid)"
    using err by (rule round_summary_update_error_result)
next
  assume "\<not> error (fst (round_summary_update irs w)) \<and>
      \<not> fst (check_stop_conditions (us_counter pk) (snd (round_summary_update irs w))) \<and>
      error (fst (continue_continuous_inventory env (snd (round_summary_update irs w))))"
  then show "handle_packet env pk w =
          handle_continuous_inventory_error env
            (fst (continue_continuous_inventory env (snd (round_summary_update irs w)))) pk
            (snd (continue_continuous_inventory env (snd (round_summary_update irs w))))"
    using assms
    by (simp add: handle_packet_def handle_round_summary_def Let_def split_beta
          check_stop_conditions_false)
next
  show "error (fst (round_summary_update irs w)) \<longleftrightarrow>
        reason_irs irs \<notin> {InventorySummaryDone, InventorySummaryHost, InventorySummaryRegulatory,
                           InventorySummaryUnsupported, InventorySummaryTxNotRampedUp}"
    by (rule round_summary_update_error)
next
  show "state (inventory_state (handle_continuous_inventory_error env r pk w')) = InvIdle"
    by simp
next
  show "stop_reason (inventory_state (handle_continuous_inventory_error env r pk w')) =
       ex10_result_to_continuous_inventory_error env r"
    by simp
next
  show "calls (handle_continuous_inventory_error env r pk w') =
       calls w' @
       MakeEx10ResultFifoPacket r (us_counter pk) #
       (if result_node_allocated env (calls w' @ [MakeEx10ResultFifoPacket r (us_counter pk)])
        then [ListNodePushBack [\<lparr> packet_type = Ex10ResultPacket r, us_counter = us_counter pk \<rparr>]]
        else []) @
       [InsertFifoEvent True
          \<lparr> packet_type = ContinuousInventorySummary
              (\<lparr> duration_us = us_counter pk - start_time_us (inventory_params w'),
                 number_of_inventory_rounds = round_count (inventory_state w'),
                 number_of_tags = tag_count (inventory_state w'),
                 reason =
                   (if error r \<and> module r = Ex10ModuleDevice \<and>
                       (result_code r = device Ex10DeviceErrorCommandsNoResponse \<or>
                        result_code r = device Ex10DeviceErrorCommandsWithResponse)
                    then SRDeviceCommandError
                    else if error r \<and> module r = Ex10ModuleDevice \<and>
                            result_code r = device Ex10DeviceErrorOps
                    then SROpError
                    else if error r \<and> module r = Ex10ModuleDevice \<and>
                            result_code r = device Ex10DeviceErrorOpsTimeout
                    then SRSdkTimeoutError
                    else if error r \<and> module r \<noteq> Ex10ModuleDevice \<and>
                            result_code r = sdk Ex10SdkErrorAggBufferOverflow
                    then SRDeviceAggregateBufferOverflow
                    else if error r \<and> module r \<noteq> Ex10ModuleDevice \<and>
                            result_code r = sdk Ex10AboveThreshold
                    then SRDeviceRampCallbackError
                    else ex10_result_to_continuous_inventory_error env r),
                 last_op_id =
                   (if error r \<and> module r = Ex10ModuleDevice \<and>
                       (result_code r = device Ex10DeviceErrorOps \<or>
                        result_code r = device Ex10DeviceErrorOpsTimeout)
                    then op_id (ops_status r) else OtherOp 0),
                 last_op_error =
                   (if error r \<and> module r = Ex10ModuleDevice \<and>
                       (result_code r = device Ex10DeviceErrorOps \<or>
                        result_code r = device Ex10DeviceErrorOpsTimeout)
                    then error_ops (ops_status r) else ErrorNone),
                 packet_rfu_1 = 0 \<rparr>),
            us_counter = us_counter pk \<rparr>]"
    by (rule handle_error_calls)
qed

lemma start_session_env_alloc:
  "start_session env_alloc sc dt = start_session env_ok sc dt"
  by (simp add: start_session_def env_alloc_def env_ok_def reader_def model_defs)

lemma start_session_env_later_fail:
  "start_session env_later_fail sc dt = start_session env_ok sc dt"
  by (simp add: start_session_def env_later_fail_def env_alloc_def env_ok_def reader_def
        model_defs)

lemma continue_env_later_fail:
  "fst (continue_continuous_inventory env_later_fail
          (snd (round_summary_update done_summary (start_session env_ok rounds_7 False)))) =
     op_error_result \<and>
   calls (snd (continue_continuous_inventory env_later_fail
          (snd (round_summary_update done_summary (start_session env_ok rounds_7 False))))) =
     calls (start_session env_ok rounds_7 False) @ [IsOpCurrentlyRunning, SetRfMode 103]"
  unfolding start_session_env_ok
  by (simp add: env_later_fail_def env_alloc_def env_ok_def done_summary_def
        round_summary_update_def continue_step_defs start_inventory_def call_result_def
        op_error_result_def Let_def)

lemma env_alloc_simps:
  "result_node_allocated env_alloc tr = True"
  "ex10_result_to_continuous_inventory_error env_alloc = sr_of_result"
  "result_node_allocated env_later_fail tr = True"
  "ex10_result_to_continuous_inventory_error env_later_fail = sr_of_result"
  by (simp_all add: env_later_fail_def env_alloc_def env_ok_def)

theorem session_error_published_witness:
  "state (inventory_state (start_session env_ok rounds_7 False)) \<noteq> InvIdle \<and>
   error (fst (round_summary_update
     \<lparr> reason_irs = InventorySummaryEventFifoFull, final_q = 2, min_q_count_irs = 3,
       queries_since_valid_epc_count_irs = 4 \<rparr> (start_session env_ok rounds_7 False))) \<and>
   calls (handle_packet env_alloc (summary_packet InventorySummaryEventFifoFull 2 5)
            (start_session env_ok rounds_7 False)) =
     calls (start_session env_ok rounds_7 False) @
     [MakeEx10ResultFifoPacket (make_ex10_sdk_error Ex10ModuleReader Ex10SdkEventFifoFull) 5,
      ListNodePushBack
        [\<lparr> packet_type =
              Ex10ResultPacket (make_ex10_sdk_error Ex10ModuleReader Ex10SdkEventFifoFull),
            us_counter = 5 \<rparr>],
      InsertFifoEvent True
        \<lparr> packet_type = ContinuousInventorySummary
            \<lparr> duration_us = 5, number_of_inventory_rounds = 0, number_of_tags = 0,
              reason = SROther 0, last_op_id = OtherOp 0, last_op_error = ErrorNone,
              packet_rfu_1 = 0 \<rparr>,
          us_counter = 5 \<rparr>] \<and>
   state (inventory_state (handle_packet env_alloc
            (summary_packet InventorySummaryEventFifoFull 2 5)
            (start_session env_ok rounds_7 False))) = InvIdle \<and>
   error (fst (continue_continuous_inventory env_later_fail
            (snd (round_summary_update done_summary (start_session env_ok rounds_7 False))))) \<and>
   calls (handle_packet env_later_fail (summary_packet InventorySummaryDone 2 5)
            (start_session env_ok rounds_7 False)) =
     calls (start_session env_ok rounds_7 False) @
     [IsOpCurrentlyRunning, SetRfMode 103,
      MakeEx10ResultFifoPacket op_error_result 5,
      ListNodePushBack [\<lparr> packet_type = Ex10ResultPacket op_error_result, us_counter = 5 \<rparr>],
      InsertFifoEvent True
        \<lparr> packet_type = ContinuousInventorySummary
            \<lparr> duration_us = 5, number_of_inventory_rounds = 1, number_of_tags = 0,
              reason = SROpError, last_op_id = OtherOp 168, last_op_error = ErrorOther 3,
              packet_rfu_1 = 0 \<rparr>,
          us_counter = 5 \<rparr>]"
proof -
  let ?w = "start_session env_ok rounds_7 False"
  let ?full = "\<lparr> reason_irs = InventorySummaryEventFifoFull, final_q = 2, min_q_count_irs = 3,
                 queries_since_valid_epc_count_irs = 4 \<rparr>"
  let ?e = "make_ex10_sdk_error Ex10ModuleReader Ex10SdkEventFifoFull"
  have ongoing: "state (inventory_state ?w) \<noteq> InvIdle"
    by (simp add: start_session_env_ok)
  have full: "packet_type (summary_packet InventorySummaryEventFifoFull 2 5) =
              InventoryRoundSummary ?full"
    by (simp add: summary_packet_def)
  have dsum: "packet_type (summary_packet InventorySummaryDone 2 5) =
              InventoryRoundSummary done_summary"
    by (simp add: summary_packet_def done_summary_def)
  have err: "error (fst (round_summary_update ?full ?w))"
    by (simp add: round_summary_update_error)
  have e: "fst (round_summary_update ?full ?w) = ?e"
    by (simp add: round_summary_update_def)
  have w1: "inventory_params (snd (round_summary_update ?full ?w)) = inventory_params ?w"
    "calls (snd (round_summary_update ?full ?w)) = calls ?w"
    "round_count (inventory_state (snd (round_summary_update ?full ?w))) = 0"
    "tag_count (inventory_state (snd (round_summary_update ?full ?w))) = 0"
    by (simp_all add: round_summary_update_round_count start_session_env_ok)
  have a: "calls (handle_packet env_alloc (summary_packet InventorySummaryEventFifoFull 2 5) ?w) =
           calls ?w @
           [MakeEx10ResultFifoPacket ?e 5,
            ListNodePushBack [\<lparr> packet_type = Ex10ResultPacket ?e, us_counter = 5 \<rparr>],
            InsertFifoEvent True
              \<lparr> packet_type = ContinuousInventorySummary
                  \<lparr> duration_us = 5, number_of_inventory_rounds = 0, number_of_tags = 0,
                    reason = SROther 0, last_op_id = OtherOp 0, last_op_error = ErrorNone,
                    packet_rfu_1 = 0 \<rparr>,
                us_counter = 5 \<rparr>]"
  proof -
    note inst = session_error_published [OF ongoing full, of env_alloc ?e
                  "snd (round_summary_update ?full ?w)"]
    from inst err e have hp:
      "handle_packet env_alloc (summary_packet InventorySummaryEventFifoFull 2 5) ?w =
       handle_continuous_inventory_error env_alloc ?e
         (summary_packet InventorySummaryEventFifoFull 2 5)
         (snd (round_summary_update ?full ?w))"
      by simp
    from inst have cl:
      "calls (handle_continuous_inventory_error env_alloc ?e
                (summary_packet InventorySummaryEventFifoFull 2 5)
                (snd (round_summary_update ?full ?w))) =
       calls (snd (round_summary_update ?full ?w)) @
       MakeEx10ResultFifoPacket ?e (us_counter (summary_packet InventorySummaryEventFifoFull 2 5)) #
       (if result_node_allocated env_alloc
             (calls (snd (round_summary_update ?full ?w)) @
              [MakeEx10ResultFifoPacket ?e
                 (us_counter (summary_packet InventorySummaryEventFifoFull 2 5))])
        then [ListNodePushBack
                [\<lparr> packet_type = Ex10ResultPacket ?e,
                   us_counter = us_counter (summary_packet InventorySummaryEventFifoFull 2 5) \<rparr>]]
        else []) @
       [InsertFifoEvent True
          \<lparr> packet_type = ContinuousInventorySummary
              (\<lparr> duration_us = us_counter (summary_packet InventorySummaryEventFifoFull 2 5) - start_time_us (inventory_params (snd (round_summary_update ?full ?w))),
                 number_of_inventory_rounds = round_count (inventory_state (snd (round_summary_update ?full ?w))),
                 number_of_tags = tag_count (inventory_state (snd (round_summary_update ?full ?w))),
                 reason =
                   (if error ?e \<and> module ?e = Ex10ModuleDevice \<and>
                       (result_code ?e = device Ex10DeviceErrorCommandsNoResponse \<or>
                        result_code ?e = device Ex10DeviceErrorCommandsWithResponse)
                    then SRDeviceCommandError
                    else if error ?e \<and> module ?e = Ex10ModuleDevice \<and>
                            result_code ?e = device Ex10DeviceErrorOps
                    then SROpError
                    else if error ?e \<and> module ?e = Ex10ModuleDevice \<and>
                            result_code ?e = device Ex10DeviceErrorOpsTimeout
                    then SRSdkTimeoutError
                    else if error ?e \<and> module ?e \<noteq> Ex10ModuleDevice \<and>
                            result_code ?e = sdk Ex10SdkErrorAggBufferOverflow
                    then SRDeviceAggregateBufferOverflow
                    else if error ?e \<and> module ?e \<noteq> Ex10ModuleDevice \<and>
                            result_code ?e = sdk Ex10AboveThreshold
                    then SRDeviceRampCallbackError
                    else ex10_result_to_continuous_inventory_error env_alloc ?e),
                 last_op_id =
                   (if error ?e \<and> module ?e = Ex10ModuleDevice \<and>
                       (result_code ?e = device Ex10DeviceErrorOps \<or>
                        result_code ?e = device Ex10DeviceErrorOpsTimeout)
                    then op_id (ops_status ?e) else OtherOp 0),
                 last_op_error =
                   (if error ?e \<and> module ?e = Ex10ModuleDevice \<and>
                       (result_code ?e = device Ex10DeviceErrorOps \<or>
                        result_code ?e = device Ex10DeviceErrorOpsTimeout)
                    then error_ops (ops_status ?e) else ErrorNone),
                 packet_rfu_1 = 0 \<rparr>),
            us_counter = us_counter (summary_packet InventorySummaryEventFifoFull 2 5) \<rparr>]"
      by blast
    have st: "start_time_us (inventory_params ?w) = 0"
      by (simp add: start_session_env_ok)
    show ?thesis
      unfolding hp cl w1 env_alloc_simps
      by (simp add: st summary_packet_def sr_of_result_def make_ex10_sdk_error_def)
  qed
  have b: "state (inventory_state (handle_packet env_alloc
             (summary_packet InventorySummaryEventFifoFull 2 5) ?w)) = InvIdle"
    using session_error_published [OF ongoing full, of env_alloc ?e
            "snd (round_summary_update ?full ?w)"] err e
    by simp
  let ?wd = "snd (round_summary_update done_summary ?w)"
  have ok: "\<not> error (fst (round_summary_update done_summary ?w))"
    by (simp add: round_summary_update_error done_summary_def)
  have go: "\<not> fst (check_stop_conditions 5 ?wd)"
    unfolding start_session_env_ok
    by (simp add: done_summary_def rounds_7_def round_summary_update_def
          check_stop_conditions_def Let_def word_le_nat_alt)
  have cerr: "error (fst (continue_continuous_inventory env_later_fail ?wd))"
    using continue_env_later_fail by (simp add: op_error_result_def)
  have wd: "inventory_params (snd (continue_continuous_inventory env_later_fail ?wd)) =
              (inventory_params ?w)"
    "round_count (inventory_state (snd (continue_continuous_inventory env_later_fail ?wd))) = 1"
    "tag_count (inventory_state (snd (continue_continuous_inventory env_later_fail ?wd))) = 0"
    unfolding start_session_env_ok
    by (simp_all add: env_later_fail_def env_alloc_def env_ok_def done_summary_def
          round_summary_update_def continue_step_defs start_inventory_def call_result_def
          op_error_result_def Let_def)
  have c: "calls (handle_packet env_later_fail (summary_packet InventorySummaryDone 2 5) ?w) =
           calls ?w @
           [IsOpCurrentlyRunning, SetRfMode 103,
            MakeEx10ResultFifoPacket op_error_result 5,
            ListNodePushBack [\<lparr> packet_type = Ex10ResultPacket op_error_result, us_counter = 5 \<rparr>],
            InsertFifoEvent True
              \<lparr> packet_type = ContinuousInventorySummary
                  \<lparr> duration_us = 5, number_of_inventory_rounds = 1, number_of_tags = 0,
                    reason = SROpError, last_op_id = OtherOp 168, last_op_error = ErrorOther 3,
                    packet_rfu_1 = 0 \<rparr>,
                us_counter = 5 \<rparr>]"
  proof -
    let ?wc = "snd (continue_continuous_inventory env_later_fail ?wd)"
    let ?pk = "summary_packet InventorySummaryDone 2 5"
    note inst = session_error_published [OF ongoing dsum, of env_later_fail op_error_result ?wc]
    have r: "fst (continue_continuous_inventory env_later_fail ?wd) = op_error_result"
      using continue_env_later_fail by simp
    have cc: "calls ?wc = calls ?w @ [IsOpCurrentlyRunning, SetRfMode 103]"
      using continue_env_later_fail by simp
    have uc: "us_counter ?pk = 5"
      by (simp add: summary_packet_def)
    from inst ok go cerr r have hp:
      "handle_packet env_later_fail ?pk ?w =
       handle_continuous_inventory_error env_later_fail op_error_result ?pk ?wc"
      by (simp add: uc)
    from inst have cl:
      "calls (handle_continuous_inventory_error env_later_fail op_error_result ?pk ?wc) =
       calls ?wc @
       MakeEx10ResultFifoPacket op_error_result (us_counter ?pk) #
       (if result_node_allocated env_later_fail
             (calls ?wc @ [MakeEx10ResultFifoPacket op_error_result (us_counter ?pk)])
        then [ListNodePushBack
                [\<lparr> packet_type = Ex10ResultPacket op_error_result,
                   us_counter = us_counter ?pk \<rparr>]]
        else []) @
       [InsertFifoEvent True
          \<lparr> packet_type = ContinuousInventorySummary
              (\<lparr> duration_us = us_counter ?pk - start_time_us (inventory_params ?wc),
                 number_of_inventory_rounds = round_count (inventory_state ?wc),
                 number_of_tags = tag_count (inventory_state ?wc),
                 reason =
                   (if error op_error_result \<and> module op_error_result = Ex10ModuleDevice \<and>
                       (result_code op_error_result = device Ex10DeviceErrorCommandsNoResponse \<or>
                        result_code op_error_result = device Ex10DeviceErrorCommandsWithResponse)
                    then SRDeviceCommandError
                    else if error op_error_result \<and> module op_error_result = Ex10ModuleDevice \<and>
                            result_code op_error_result = device Ex10DeviceErrorOps
                    then SROpError
                    else if error op_error_result \<and> module op_error_result = Ex10ModuleDevice \<and>
                            result_code op_error_result = device Ex10DeviceErrorOpsTimeout
                    then SRSdkTimeoutError
                    else if error op_error_result \<and> module op_error_result \<noteq> Ex10ModuleDevice \<and>
                            result_code op_error_result = sdk Ex10SdkErrorAggBufferOverflow
                    then SRDeviceAggregateBufferOverflow
                    else if error op_error_result \<and> module op_error_result \<noteq> Ex10ModuleDevice \<and>
                            result_code op_error_result = sdk Ex10AboveThreshold
                    then SRDeviceRampCallbackError
                    else ex10_result_to_continuous_inventory_error env_later_fail op_error_result),
                 last_op_id =
                   (if error op_error_result \<and> module op_error_result = Ex10ModuleDevice \<and>
                       (result_code op_error_result = device Ex10DeviceErrorOps \<or>
                        result_code op_error_result = device Ex10DeviceErrorOpsTimeout)
                    then op_id (ops_status op_error_result) else OtherOp 0),
                 last_op_error =
                   (if error op_error_result \<and> module op_error_result = Ex10ModuleDevice \<and>
                       (result_code op_error_result = device Ex10DeviceErrorOps \<or>
                        result_code op_error_result = device Ex10DeviceErrorOpsTimeout)
                    then error_ops (ops_status op_error_result) else ErrorNone),
                 packet_rfu_1 = 0 \<rparr>),
            us_counter = us_counter ?pk \<rparr>]"
      by blast
    have st: "start_time_us (inventory_params ?w) = 0"
      by (simp add: start_session_env_ok)
    show ?thesis
      unfolding hp cl wd cc env_alloc_simps
      by (simp add: st summary_packet_def sr_of_result_def op_error_result_def)
  qed
  show ?thesis
    using ongoing err a b cerr c by simp
qed

subsection \<open>The Q state of the next round\<close>

lemma handle_error_rounds [simp]:
  "run_inventory_calls (calls (handle_continuous_inventory_error env r pk w)) =
     run_inventory_calls (calls w)"
  by (simp add: handle_error_calls)













end
